theory Spec2Isabelle
  imports Complex_Main
begin

section \<open>Python values used by MapTileDownloader.py\<close>

text \<open>
  Exceptions are values.  \<open>ValueError\<close> is what numpy raises for a negative dimension in
  \<open>np.zeros\<close> and for an assignment whose shapes cannot be broadcast, and what Python
  raises for a failed tuple unpacking or a negative shift count; \<open>IndexError\<close> is numpy's
  "too many indices".  \<open>External msg\<close> is an exception raised inside an external
  collaborator (requests, cv2, argparse), carrying its message.
\<close>

datatype py_error = ValueError | IndexError | External string

text \<open>
  Python floats are idealised as real numbers.  \<open>int(x)\<close> on a float truncates towards
  zero.
\<close>

definition py_int :: "real \<Rightarrow> int" where
  "py_int x = (if 0 \<le> x then \<lfloor>x\<rfloor> else \<lceil>x\<rceil>)"

text \<open>A numpy array is represented by its shape; pixel values play no role below.\<close>

type_synonym shape = "nat list"

text \<open>
  The HTTP response of \<open>requests.get\<close>; the source reads only \<open>response.content\<close>
  and never looks at the status code.
\<close>

record response =
  status_code :: int
  content :: string

text \<open>
  The external collaborators, as parameters:
  \<^item> the tile server: \<open>requests.get(self.url.format(x, y, z), headers)\<close> either raises or
    returns a response;
  \<^item> \<open>cv2.imdecode\<close>: raises, returns \<open>None\<close>, or returns an array (its shape);
  \<^item> \<open>cv2.imwrite\<close>: raises with a message or returns a bool (ignored by the source).
\<close>

type_synonym server = "int \<Rightarrow> int \<Rightarrow> int \<Rightarrow> py_error + response"
type_synonym decoder = "string \<Rightarrow> py_error + shape option"
type_synonym encoder = "string \<Rightarrow> shape \<Rightarrow> py_error + bool"

section \<open>get_image_info (lines 93-120)\<close>

definition get_image_info ::
  "server \<Rightarrow> decoder \<Rightarrow> int \<Rightarrow> int \<Rightarrow> int \<Rightarrow> py_error + (int \<times> int \<times> int)" where
  "get_image_info get imdecode tx ty zoom =
     (case get tx ty zoom of
        Inl e \<Rightarrow> Inl e
      | Inr response \<Rightarrow>
          (case imdecode (content response) of
             Inl e \<Rightarrow> Inl e
           | Inr None \<Rightarrow> Inr (256, 256, 1)
           | Inr (Some tile) \<Rightarrow>
               (case take 2 tile of
                  [height, width] \<Rightarrow>
                    Inr (int width, int height,
                         if length tile > 2 then int (tile ! 2) else 1)
                | _ \<Rightarrow> Inl ValueError)))"

section \<open>The projection (lines 145-165)\<close>

definition lat_lon_to_tile_coords :: "real \<Rightarrow> real \<Rightarrow> real \<Rightarrow> real \<times> real" where
  "lat_lon_to_tile_coords lat lon scale =
     (let siny = sin (lat * pi / 180);
          siny = min (max siny (- 0.9999)) 0.9999;
          x = scale * (0.5 + lon / 360);
          y = scale * (0.5 - ln ((1 + siny) / (1 - siny)) / (4 * pi))
      in (x, y))"

text \<open>\<open>scale = 1 << zoom\<close>: a negative shift count raises \<open>ValueError\<close>.\<close>

definition shift_scale :: "int \<Rightarrow> py_error + int" where
  "shift_scale zoom = (if zoom < 0 then Inl ValueError else Inr (2 ^ nat zoom))"

section \<open>Geometry (lines 176-189)\<close>

record geometry =
  tile_size_x :: int
  tile_size_y :: int
  tile_channels :: int
  tl_pixel_x :: int
  tl_pixel_y :: int
  br_pixel_x :: int
  br_pixel_y :: int
  tl_tile_x :: int
  tl_tile_y :: int
  br_tile_x :: int
  br_tile_y :: int
  img_w :: int
  img_h :: int
  tiles_total :: int

definition plan_geometry :: "real \<times> real \<Rightarrow> real \<times> real \<Rightarrow> int \<times> int \<times> int \<Rightarrow> geometry" where
  "plan_geometry tl_proj br_proj info =
     (case (tl_proj, br_proj, info) of
        ((tl_proj_x, tl_proj_y), (br_proj_x, br_proj_y), (tsx, tsy, tch)) \<Rightarrow>
          (let tlpx = py_int (tl_proj_x * real_of_int tsx);
               tlpy = py_int (tl_proj_y * real_of_int tsy);
               brpx = py_int (br_proj_x * real_of_int tsx);
               brpy = py_int (br_proj_y * real_of_int tsy);
               tltx = py_int tl_proj_x;
               tlty = py_int tl_proj_y;
               brtx = py_int br_proj_x;
               brty = py_int br_proj_y
           in \<lparr> tile_size_x = tsx, tile_size_y = tsy, tile_channels = tch,
                tl_pixel_x = tlpx, tl_pixel_y = tlpy,
                br_pixel_x = brpx, br_pixel_y = brpy,
                tl_tile_x = tltx, tl_tile_y = tlty,
                br_tile_x = brtx, br_tile_y = brty,
                img_w = \<bar>tlpx - brpx\<bar>,
                img_h = brpy - tlpy,
                tiles_total = (brtx - tltx + 1) * (brty - tlty + 1) \<rparr>))"

text \<open>
  \<open>np.zeros((img_h, img_w, tile_channels))\<close> (line 204): a negative dimension raises
  \<open>ValueError\<close>.
\<close>

definition np_zeros :: "int \<Rightarrow> int \<Rightarrow> int \<Rightarrow> py_error + shape" where
  "np_zeros h w c =
     (if h < 0 \<or> w < 0 \<or> c < 0 then Inl ValueError else Inr [nat h, nat w, nat c])"

section \<open>Placement of one tile (lines 229-244)\<close>

record placement =
  tl_rel_x :: int
  tl_rel_y :: int
  br_rel_x :: int
  br_rel_y :: int
  img_x_l :: int
  img_x_r :: int
  img_y_l :: int
  img_y_r :: int
  cr_x_l :: int
  cr_x_r :: int
  cr_y_l :: int
  cr_y_r :: int

definition place_tile :: "geometry \<Rightarrow> int \<Rightarrow> int \<Rightarrow> placement" where
  "place_tile g tile_x tile_y =
     (let tlrx = tile_x * tile_size_x g - tl_pixel_x g;
          tlry = tile_y * tile_size_y g - tl_pixel_y g;
          brrx = tlrx + tile_size_x g;
          brry = tlry + tile_size_y g
      in \<lparr> tl_rel_x = tlrx, tl_rel_y = tlry, br_rel_x = brrx, br_rel_y = brry,
           img_x_l = max 0 tlrx,
           img_x_r = min (img_w g + 1) brrx,
           img_y_l = max 0 tlry,
           img_y_r = min (img_h g + 1) brry,
           cr_x_l = max 0 (- tlrx),
           cr_x_r = tile_size_x g + min 0 (img_w g - brrx),
           cr_y_l = max 0 (- tlry),
           cr_y_r = tile_size_y g + min 0 (img_h g - brry) \<rparr>)"

section \<open>numpy slicing and assignment (line 250)\<close>

text \<open>
  One endpoint of a slice \<open>a[lo:hi]\<close> on an axis of length \<open>n\<close>: a negative index
  counts from the end, and the result is clamped to \<open>[0, n]\<close>.
\<close>

definition slice_bound :: "int \<Rightarrow> nat \<Rightarrow> nat" where
  "slice_bound i n = (if i < 0 then nat (max 0 (i + int n)) else min (nat i) n)"

text \<open>The half-open index range \<open>[start, stop)\<close> selected by \<open>a[lo:hi]\<close>; empty when stop \<le> start.\<close>

definition slice_range :: "int \<Rightarrow> int \<Rightarrow> nat \<Rightarrow> nat \<times> nat" where
  "slice_range lo hi n =
     (let s = slice_bound lo n; e = slice_bound hi n in (s, max s e))"

definition slice_len :: "int \<Rightarrow> int \<Rightarrow> nat \<Rightarrow> nat" where
  "slice_len lo hi n = (case slice_range lo hi n of (s, e) \<Rightarrow> e - s)"

text \<open>Shape of \<open>a[y_l:y_r, x_l:x_r]\<close>; fewer than two axes is "too many indices".\<close>

definition slice2_shape :: "shape \<Rightarrow> int \<Rightarrow> int \<Rightarrow> int \<Rightarrow> int \<Rightarrow> py_error + shape" where
  "slice2_shape a y_l y_r x_l x_r =
     (case a of
        n0 # n1 # rest \<Rightarrow> Inr (slice_len y_l y_r n0 # slice_len x_l x_r n1 # rest)
      | _ \<Rightarrow> Inl IndexError)"

text \<open>
  numpy's rule for \<open>dst[...] = src\<close>: the axes are aligned from the last one; a source
  axis must equal the destination axis or be 1; surplus leading source axes must be 1.
  Both shapes are given reversed.
\<close>

fun broadcast_rev :: "nat list \<Rightarrow> nat list \<Rightarrow> bool" where
  "broadcast_rev [] ds = True"
| "broadcast_rev (s # ss) [] = (s = 1 \<and> broadcast_rev ss [])"
| "broadcast_rev (s # ss) (d # ds) = ((s = d \<or> s = 1) \<and> broadcast_rev ss ds)"

definition broadcastable :: "shape \<Rightarrow> shape \<Rightarrow> bool" where
  "broadcastable src dst = broadcast_rev (rev src) (rev dst)"

text \<open>
  A destination rectangle actually written: rows \<open>[row_lo, row_hi)\<close> and columns \<open>[col_lo, col_hi)\<close>
  of the canvas.
\<close>

record rect =
  row_lo :: nat
  row_hi :: nat
  col_lo :: nat
  col_hi :: nat

definition dest_rect :: "shape \<Rightarrow> placement \<Rightarrow> rect" where
  "dest_rect img p =
     (case (slice_range (img_y_l p) (img_y_r p) (img ! 0),
            slice_range (img_x_l p) (img_x_r p) (img ! 1)) of
        ((ys, ye), (xs, xe)) \<Rightarrow> \<lparr> row_lo = ys, row_hi = ye, col_lo = xs, col_hi = xe \<rparr>)"

text \<open>
  \<open>img[img_y_l:img_y_r, img_x_l:img_x_r] = tile[cr_y_l:cr_y_r, cr_x_l:cr_x_r]\<close>:
  the rectangle written, or the exception.
\<close>

definition copy_tile :: "shape \<Rightarrow> shape \<Rightarrow> placement \<Rightarrow> py_error + rect" where
  "copy_tile img tile p =
     (case slice2_shape tile (cr_y_l p) (cr_y_r p) (cr_x_l p) (cr_x_r p) of
        Inl e \<Rightarrow> Inl e
      | Inr src \<Rightarrow>
          (case slice2_shape img (img_y_l p) (img_y_r p) (img_x_l p) (img_x_r p) of
             Inl e \<Rightarrow> Inl e
           | Inr dst \<Rightarrow>
               if broadcastable src dst then Inr (dest_rect img p) else Inl ValueError))"

section \<open>build_row (lines 206-250)\<close>

text \<open>
  The mutable state shared by the row tasks: the counter \<open>self.tiles_current\<close>, the values
  handed to \<open>self.bar.update\<close> in order, and the canvas rectangles written so far.
\<close>

record stitch_state =
  tiles_current :: int
  bar_updates :: "int list"
  writes :: "rect list"

text \<open>
  The \<open>for tile_x in range(...)\<close> loop over the remaining tile columns.  The result is the
  exception that ended the row task (if any) and the state it left.
\<close>

fun build_row_tiles ::
  "server \<Rightarrow> decoder \<Rightarrow> geometry \<Rightarrow> shape \<Rightarrow> int \<Rightarrow> int \<Rightarrow> int list \<Rightarrow> stitch_state
     \<Rightarrow> py_error option \<times> stitch_state" where
  "build_row_tiles get imdecode g img zoom tile_y [] st = (None, st)"
| "build_row_tiles get imdecode g img zoom tile_y (tile_x # rest) st =
     (case get tile_x tile_y zoom of
        Inl e \<Rightarrow> (Some e, st)
      | Inr response \<Rightarrow>
          (case imdecode (content response) of
             Inl e \<Rightarrow> (Some e, st)
           | Inr None \<Rightarrow> build_row_tiles get imdecode g img zoom tile_y rest st
           | Inr (Some tile) \<Rightarrow>
               (let p = place_tile g tile_x tile_y;
                    st1 = st\<lparr> tiles_current := tiles_current st + 1 \<rparr>;
                    st2 = st1\<lparr> bar_updates := bar_updates st1 @ [tiles_current st1] \<rparr>
                in case copy_tile img tile p of
                     Inl e \<Rightarrow> (Some e, st2)
                   | Inr r \<Rightarrow>
                       build_row_tiles get imdecode g img zoom tile_y rest
                         (st2\<lparr> writes := writes st2 @ [r] \<rparr>))))"

definition build_row ::
  "server \<Rightarrow> decoder \<Rightarrow> geometry \<Rightarrow> shape \<Rightarrow> int \<Rightarrow> int \<Rightarrow> stitch_state
     \<Rightarrow> py_error option \<times> stitch_state" where
  "build_row get imdecode g img zoom tile_y st =
     build_row_tiles get imdecode g img zoom tile_y [tl_tile_x g .. br_tile_x g] st"

section \<open>download_map_region (lines 167-269) and main (lines 285-294)\<close>

text \<open>
  One thread per tile row (lines 254-260).  \<open>run_rows\<close> runs the threads one after the
  other in the order they are started, which is one of the schedules the program admits
  (\<open>run_schedule\<close> below covers the others); an exception inside a thread ends that thread
  only and is recorded.
\<close>

fun run_rows ::
  "server \<Rightarrow> decoder \<Rightarrow> geometry \<Rightarrow> shape \<Rightarrow> int \<Rightarrow> int list \<Rightarrow> stitch_state
     \<Rightarrow> py_error option list \<times> stitch_state" where
  "run_rows get imdecode g img zoom [] st = ([], st)"
| "run_rows get imdecode g img zoom (tile_y # rest) st =
     (case build_row get imdecode g img zoom tile_y st of
        (r, st1) \<Rightarrow>
          (case run_rows get imdecode g img zoom rest st1 of
             (rs, st2) \<Rightarrow> (r # rs, st2)))"

text \<open>What the save step prints (lines 263-269) and what \<open>main\<close> prints (line 293).\<close>

datatype printed =
    Saving_image string
  | Error_newline py_error
  | Done
  | Error_colon py_error

record run_result =
  geom :: geometry
  canvas :: shape
  thread_errors :: "py_error option list"
  final :: stitch_state
  prints :: "printed list"

text \<open>
  \<open>progressbar.ProgressBar(maxval=self.tiles_total)\<close> (line 192): the progress bar library
  refuses a maximum below its minimum 0 with \<open>ValueError\<close>.
\<close>

definition ProgressBar :: "int \<Rightarrow> py_error + int" where
  "ProgressBar maxval = (if maxval < 0 then Inl ValueError else Inr maxval)"

definition download_map_region ::
  "server \<Rightarrow> decoder \<Rightarrow> encoder \<Rightarrow> real \<Rightarrow> real \<Rightarrow> real \<Rightarrow> real \<Rightarrow> int \<Rightarrow> string
     \<Rightarrow> py_error + run_result" where
  "download_map_region get imdecode imwrite lat1 lon1 lat2 lon2 zoom filename =
     (case shift_scale zoom of
        Inl e \<Rightarrow> Inl e
      | Inr scale \<Rightarrow>
          (let tl_proj = lat_lon_to_tile_coords lat1 lon1 (real_of_int scale);
               br_proj = lat_lon_to_tile_coords lat2 lon2 (real_of_int scale)
           in case get_image_info get imdecode (py_int (fst tl_proj)) (py_int (snd tl_proj)) zoom of
                Inl e \<Rightarrow> Inl e
              | Inr info \<Rightarrow>
                  (let g = plan_geometry tl_proj br_proj info
                   in case ProgressBar (tiles_total g) of
                        Inl e \<Rightarrow> Inl e
                      | Inr bar \<Rightarrow>
                          (case np_zeros (img_h g) (img_w g) (tile_channels g) of
                             Inl e \<Rightarrow> Inl e
                           | Inr img \<Rightarrow>
                               (case run_rows get imdecode g img zoom
                                       [tl_tile_y g .. br_tile_y g]
                                       \<lparr> tiles_current = 0, bar_updates = [], writes = [] \<rparr> of
                                  (errs, st) \<Rightarrow>
                                    Inr \<lparr> geom = g, canvas = img, thread_errors = errs,
                                           final = st,
                                           prints =
                                             (case imwrite filename img of
                                                Inl e \<Rightarrow>
                                                  [Saving_image filename, Error_newline e]
                                              | Inr written \<Rightarrow>
                                                  [Saving_image filename, Done]) \<rparr>)))))"

text \<open>
  The command line as \<open>main\<close> sees it (lines 285-290).  \<open>parser.parse_args()\<close> ends the
  program by itself with \<open>SystemExit\<close> (status 2 after a usage error, status 0 after
  \<open>--version\<close> or \<open>--help\<close>), which \<open>except Exception\<close> does not catch; \<open>lat_long\<close> and
  \<open>int(args.zoom)\<close> raise exceptions that it does catch; otherwise the four coordinates,
  the zoom and the absolute output path are handed to \<open>download_map_region\<close>.
\<close>

record cli =
  cli_lat1 :: real
  cli_lon1 :: real
  cli_lat2 :: real
  cli_lon2 :: real
  cli_zoom :: int
  cli_file :: string

datatype command_line =
    SystemExit int
  | Raised py_error
  | Parsed cli

text \<open>\<open>main\<close>: the exit status of the program and what the two handlers printed.\<close>

definition main ::
  "server \<Rightarrow> decoder \<Rightarrow> encoder \<Rightarrow> command_line \<Rightarrow> int \<times> printed list" where
  "main get imdecode imwrite args =
     (case args of
        SystemExit status \<Rightarrow> (status, [])
      | Raised e \<Rightarrow> (1, [Error_colon e])
      | Parsed a \<Rightarrow>
          (case download_map_region get imdecode imwrite
                  (cli_lat1 a) (cli_lon1 a) (cli_lat2 a) (cli_lon2 a) (cli_zoom a) (cli_file a) of
             Inl e \<Rightarrow> (1, [Error_colon e])
           | Inr res \<Rightarrow> (0, prints res)))"

text \<open>
  The test \<open>tile is not None\<close> of line 227 for the tile at \<open>(tile_x, tile_y)\<close>: the request
  returns and \<open>cv2.imdecode\<close> yields an array.
\<close>

definition tile_decodes :: "server \<Rightarrow> decoder \<Rightarrow> int \<Rightarrow> int \<Rightarrow> int \<Rightarrow> bool" where
  "tile_decodes get imdecode zoom tile_y tile_x =
     (case get tile_x tile_y zoom of
        Inl e \<Rightarrow> False
      | Inr response \<Rightarrow>
          (case imdecode (content response) of
             Inl e \<Rightarrow> False
           | Inr None \<Rightarrow> False
           | Inr (Some tile) \<Rightarrow> True))"

section \<open>Interleaved row tasks (lines 254-260)\<close>

text \<open>
  A row task between two tiles: its row, the columns it has not fetched yet, and the
  exception that ended it, if any.
\<close>

record row_task =
  task_row :: int
  task_todo :: "int list"
  task_error :: "py_error option"

text \<open>
  A live task runs the loop body of \<open>build_row\<close> for its next column; a task that has no
  column left or was ended by an exception does nothing.
\<close>

definition step_task ::
  "server \<Rightarrow> decoder \<Rightarrow> geometry \<Rightarrow> shape \<Rightarrow> int \<Rightarrow> row_task \<Rightarrow> stitch_state
     \<Rightarrow> row_task \<times> stitch_state" where
  "step_task get imdecode g img zoom t st =
     (case (task_todo t, task_error t) of
        (tile_x # rest, None) \<Rightarrow>
          (case build_row_tiles get imdecode g img zoom (task_row t) [tile_x] st of
             (r, st') \<Rightarrow> (t\<lparr> task_todo := rest, task_error := r \<rparr>, st'))
      | _ \<Rightarrow> (t, st))"

text \<open>
  The threads interleave tile by tile: a schedule is the list of thread indices in the order
  in which the threads get to run their next tile.  The number of calls of \<open>bar.update\<close>
  does not depend on any finer interleaving, since a task decides what to do next from its
  own tile only.
\<close>

fun run_schedule ::
  "server \<Rightarrow> decoder \<Rightarrow> geometry \<Rightarrow> shape \<Rightarrow> int \<Rightarrow> nat list \<Rightarrow> row_task list \<Rightarrow> stitch_state
     \<Rightarrow> row_task list \<times> stitch_state" where
  "run_schedule get imdecode g img zoom [] ts st = (ts, st)"
| "run_schedule get imdecode g img zoom (i # sched) ts st =
     (if i < length ts then
        (case step_task get imdecode g img zoom (ts ! i) st of
           (t, st') \<Rightarrow> run_schedule get imdecode g img zoom sched (ts[i := t]) st')
      else run_schedule get imdecode g img zoom sched ts st)"

text \<open>The tasks as the threads are started: every row of the plan with all its columns.\<close>

definition start_tasks :: "geometry \<Rightarrow> row_task list" where
  "start_tasks g =
     map (\<lambda>tile_y. \<lparr> task_row = tile_y, task_todo = [tl_tile_x g .. br_tile_x g],
                      task_error = None \<rparr>)
         [tl_tile_y g .. br_tile_y g]"

text \<open>A task has completed when it has no column left or was ended by an exception.\<close>

definition task_done :: "row_task \<Rightarrow> bool" where
  "task_done t = (task_todo t = [] \<or> task_error t \<noteq> None)"

text \<open>The progress reports a task can still make: the decodable tiles among its columns.\<close>

definition pending_reports :: "server \<Rightarrow> decoder \<Rightarrow> int \<Rightarrow> row_task \<Rightarrow> nat" where
  "pending_reports get imdecode zoom t =
     (if task_error t = None
      then length (filter (tile_decodes get imdecode zoom (task_row t)) (task_todo t))
      else 0)"

section \<open>Truncation and the planned tile range\<close>

lemma py_int_nonneg: "0 \<le> x \<Longrightarrow> py_int x = \<lfloor>x\<rfloor>"
  by (simp add: py_int_def)

lemma py_int_scaled_less:
  assumes "0 < t"
  shows "py_int (y * real_of_int t) < (py_int y + 1) * t"
proof (cases "0 \<le> y")
  case True
  have "y < real_of_int (\<lfloor>y\<rfloor> + 1)" by linarith
  then have "y * real_of_int t < real_of_int ((\<lfloor>y\<rfloor> + 1) * t)"
    using assms by simp
  then have "\<lfloor>y * real_of_int t\<rfloor> < (\<lfloor>y\<rfloor> + 1) * t"
    by (simp add: floor_less_iff)
  moreover have "0 \<le> y * real_of_int t" using True assms by simp
  ultimately show ?thesis using True by (simp add: py_int_def)
next
  case False
  then have neg: "y < 0" by simp
  have "y \<le> real_of_int \<lceil>y\<rceil>" by linarith
  then have "y * real_of_int t \<le> real_of_int (\<lceil>y\<rceil> * t)"
    using assms by simp
  then have "\<lceil>y * real_of_int t\<rceil> \<le> \<lceil>y\<rceil> * t"
    by (simp add: ceiling_le_iff)
  moreover have "\<lceil>y\<rceil> * t < (\<lceil>y\<rceil> + 1) * t" using assms by (simp add: algebra_simps)
  moreover have "y * real_of_int t < 0" using neg assms by (simp add: mult_neg_pos)
  ultimately show ?thesis using neg by (simp add: py_int_def)
qed

lemma py_int_scaled_ge:
  assumes "0 \<le> q" "0 \<le> t"
  shows "py_int q * t \<le> py_int (q * real_of_int t)"
proof -
  have "real_of_int \<lfloor>q\<rfloor> \<le> q" by simp
  then have "real_of_int (\<lfloor>q\<rfloor> * t) \<le> q * real_of_int t"
    using assms by (simp add: mult_right_mono)
  then have "\<lfloor>q\<rfloor> * t \<le> \<lfloor>q * real_of_int t\<rfloor>"
    by (simp add: le_floor_iff)
  moreover have "0 \<le> q * real_of_int t" using assms by simp
  ultimately show ?thesis using assms by (simp add: py_int_def)
qed

lemma plan_geometry_fields:
  "tile_size_x (plan_geometry (px, py) (qx, qy) (tw, th, ch)) = tw"
  "tile_size_y (plan_geometry (px, py) (qx, qy) (tw, th, ch)) = th"
  "tile_channels (plan_geometry (px, py) (qx, qy) (tw, th, ch)) = ch"
  "tl_pixel_x (plan_geometry (px, py) (qx, qy) (tw, th, ch)) = py_int (px * real_of_int tw)"
  "tl_pixel_y (plan_geometry (px, py) (qx, qy) (tw, th, ch)) = py_int (py * real_of_int th)"
  "br_pixel_x (plan_geometry (px, py) (qx, qy) (tw, th, ch)) = py_int (qx * real_of_int tw)"
  "br_pixel_y (plan_geometry (px, py) (qx, qy) (tw, th, ch)) = py_int (qy * real_of_int th)"
  "tl_tile_x (plan_geometry (px, py) (qx, qy) (tw, th, ch)) = py_int px"
  "tl_tile_y (plan_geometry (px, py) (qx, qy) (tw, th, ch)) = py_int py"
  "br_tile_x (plan_geometry (px, py) (qx, qy) (tw, th, ch)) = py_int qx"
  "br_tile_y (plan_geometry (px, py) (qx, qy) (tw, th, ch)) = py_int qy"
  "img_w (plan_geometry (px, py) (qx, qy) (tw, th, ch)) =
     \<bar>py_int (px * real_of_int tw) - py_int (qx * real_of_int tw)\<bar>"
  "img_h (plan_geometry (px, py) (qx, qy) (tw, th, ch)) =
     py_int (qy * real_of_int th) - py_int (py * real_of_int th)"
  "tiles_total (plan_geometry (px, py) (qx, qy) (tw, th, ch)) =
     (py_int qx - py_int px + 1) * (py_int qy - py_int py + 1)"
  by (simp_all add: plan_geometry_def Let_def)

lemma place_tile_fields:
  "tl_rel_x (place_tile g tx ty) = tx * tile_size_x g - tl_pixel_x g"
  "tl_rel_y (place_tile g tx ty) = ty * tile_size_y g - tl_pixel_y g"
  "br_rel_x (place_tile g tx ty) = tx * tile_size_x g - tl_pixel_x g + tile_size_x g"
  "br_rel_y (place_tile g tx ty) = ty * tile_size_y g - tl_pixel_y g + tile_size_y g"
  "img_x_l (place_tile g tx ty) = max 0 (tx * tile_size_x g - tl_pixel_x g)"
  "img_x_r (place_tile g tx ty) =
     min (img_w g + 1) (tx * tile_size_x g - tl_pixel_x g + tile_size_x g)"
  "img_y_l (place_tile g tx ty) = max 0 (ty * tile_size_y g - tl_pixel_y g)"
  "img_y_r (place_tile g tx ty) =
     min (img_h g + 1) (ty * tile_size_y g - tl_pixel_y g + tile_size_y g)"
  "cr_x_l (place_tile g tx ty) = max 0 (- (tx * tile_size_x g - tl_pixel_x g))"
  "cr_x_r (place_tile g tx ty) =
     tile_size_x g + min 0 (img_w g - (tx * tile_size_x g - tl_pixel_x g + tile_size_x g))"
  "cr_y_l (place_tile g tx ty) = max 0 (- (ty * tile_size_y g - tl_pixel_y g))"
  "cr_y_r (place_tile g tx ty) =
     tile_size_y g + min 0 (img_h g - (ty * tile_size_y g - tl_pixel_y g + tile_size_y g))"
  by (simp_all add: place_tile_def Let_def)

text \<open>
  For a tile index at or after the first planned one, the far edge of the tile lies at least
  one pixel inside the canvas; for an index up to the last planned one (non-negative
  coordinate), the near edge does not lie beyond the far pixel corner.
\<close>

lemma planned_far_edge_positive:
  assumes "0 < t" "py_int p \<le> k"
  shows "1 \<le> k * t - py_int (p * real_of_int t) + t"
proof -
  have "(py_int p + 1) * t \<le> (k + 1) * t"
    using assms by (intro mult_right_mono) auto
  with py_int_scaled_less [OF assms(1), of p] show ?thesis
    by (simp add: algebra_simps)
qed

lemma planned_near_edge_bounded:
  assumes "0 \<le> t" "0 \<le> q" "k \<le> py_int q"
  shows "k * t - c \<le> py_int (q * real_of_int t) - c"
proof -
  have "k * t \<le> py_int q * t" using assms by (intro mult_right_mono) auto
  with py_int_scaled_ge [OF assms(2) assms(1)] show ?thesis by simp
qed

lemma planned_x_offsets:
  assumes "g = plan_geometry (px, py) (qx, qy) (tw, th, ch)" "0 \<le> qx" "0 < tw"
    and "tx \<in> set [tl_tile_x g .. br_tile_x g]"
  shows "tl_rel_x (place_tile g tx ty) \<le> img_w g" "1 \<le> br_rel_x (place_tile g tx ty)"
proof -
  have r: "py_int px \<le> tx" "tx \<le> py_int qx"
    using assms(1,4) by (simp_all add: plan_geometry_fields)
  from planned_far_edge_positive [OF assms(3) r(1)] assms(1)
  show "1 \<le> br_rel_x (place_tile g tx ty)"
    by (simp add: place_tile_fields plan_geometry_fields)
  from planned_near_edge_bounded [OF _ assms(2) r(2), of tw "py_int (px * real_of_int tw)"]
    assms(1,3)
  show "tl_rel_x (place_tile g tx ty) \<le> img_w g"
    by (simp add: place_tile_fields plan_geometry_fields)
qed

lemma planned_y_offsets:
  assumes "g = plan_geometry (px, py) (qx, qy) (tw, th, ch)" "0 \<le> qy" "0 < th"
    and "ty \<in> set [tl_tile_y g .. br_tile_y g]"
  shows "tl_rel_y (place_tile g tx ty) \<le> img_h g" "1 \<le> br_rel_y (place_tile g tx ty)"
proof -
  have r: "py_int py \<le> ty" "ty \<le> py_int qy"
    using assms(1,4) by (simp_all add: plan_geometry_fields)
  from planned_far_edge_positive [OF assms(3) r(1)] assms(1)
  show "1 \<le> br_rel_y (place_tile g tx ty)"
    by (simp add: place_tile_fields plan_geometry_fields)
  from planned_near_edge_bounded [OF _ assms(2) r(2), of th "py_int (py * real_of_int th)"]
    assms(1,3)
  show "tl_rel_y (place_tile g tx ty) \<le> img_h g"
    by (simp add: place_tile_fields plan_geometry_fields)
qed

lemma np_zeros_Inr: "np_zeros h w c = Inr img \<Longrightarrow> 0 \<le> h \<and> 0 \<le> w \<and> 0 \<le> c \<and> img = [nat h, nat w, nat c]"
  by (auto simp: np_zeros_def split: if_splits)

lemma dest_rect_rows:
  "row_lo (dest_rect img p) = fst (slice_range (img_y_l p) (img_y_r p) (img ! 0))"
  "row_hi (dest_rect img p) = snd (slice_range (img_y_l p) (img_y_r p) (img ! 0))"
  "col_lo (dest_rect img p) = fst (slice_range (img_x_l p) (img_x_r p) (img ! 1))"
  "col_hi (dest_rect img p) = snd (slice_range (img_x_l p) (img_x_r p) (img ! 1))"
  by (simp_all add: dest_rect_def split: prod.splits)

section \<open>The Mercator term\<close>

text \<open>The term \<open>ln ((1 + s) / (1 - s))\<close> of line 164 is monotone and odd on \<open>(-1, 1)\<close>.\<close>

lemma mercator_mono:
  fixes s t :: real
  assumes "- 1 < s" "s \<le> t" "t < 1"
  shows "ln ((1 + s) / (1 - s)) \<le> ln ((1 + t) / (1 - t))"
proof -
  have pos: "0 < 1 - s" "0 < 1 - t" "0 < 1 + s" using assms by simp_all
  have "(1 + s) * (1 - t) \<le> (1 + t) * (1 - s)" using assms by (simp add: algebra_simps)
  then have "(1 + s) / (1 - s) \<le> (1 + t) / (1 - t)"
    using pos by (simp add: divide_simps mult.commute)
  moreover have "0 < (1 + s) / (1 - s)" using pos by simp
  ultimately show ?thesis by (rule ln_mono)
qed

lemma mercator_odd:
  fixes s :: real
  assumes "- 1 < s" "s < 1"
  shows "ln ((1 - s) / (1 + s)) = - ln ((1 + s) / (1 - s))"
proof -
  have "(1 - s) / (1 + s) = inverse ((1 + s) / (1 - s))" by simp
  moreover have "0 < (1 + s) / (1 - s)" using assms by simp
  ultimately show ?thesis by (simp only: ln_inverse)
qed

lemma mercator_at_clamp:
  "ln ((1 + 0.9999) / (1 - 0.9999 :: real)) = ln 19999"
  "ln ((1 + - 0.9999) / (1 - - 0.9999 :: real)) = - ln 19999"
proof -
  show a: "ln ((1 + 0.9999) / (1 - 0.9999 :: real)) = ln 19999" by simp
  have "ln ((1 - 0.9999) / (1 + 0.9999 :: real)) = - ln ((1 + 0.9999) / (1 - 0.9999))"
    by (rule mercator_odd) simp_all
  then show "ln ((1 + - 0.9999) / (1 - - 0.9999 :: real)) = - ln 19999"
    using a by simp
qed

lemma mercator_tanh: "ln ((1 + tanh x) / (1 - tanh x)) = 2 * (x :: real)"
  using artanh_tanh_real [of x] by (simp add: artanh_def)

text \<open>Coarse bounds: \<open>exp 1 \<le> 3\<close> and \<open>pi < 4\<close> give \<open>2 * pi < ln 19999\<close>.\<close>

lemma exp_8_less: "exp (8 :: real) < 19999"
proof -
  have "exp (of_nat 8 * (1 :: real)) = exp 1 ^ 8" by (rule exp_of_nat_mult)
  then have "exp (8 :: real) = exp 1 ^ 8" by simp
  also have "\<dots> \<le> 3 ^ 8" by (intro power_mono exp_le) simp
  also have "\<dots> < (19999 :: real)" by simp
  finally show ?thesis .
qed

lemma two_pi_less_ln: "2 * pi < ln (19999 :: real)"
proof -
  have "2 * pi < 8" using pi_less_4 by simp
  then have "exp (2 * pi) < exp (8 :: real)" by simp
  also note exp_8_less
  finally have "ln (exp (2 * pi)) < ln (19999 :: real)" by (subst ln_less_cancel_iff) simp_all
  then show ?thesis by simp
qed

lemma clamp_siny_bounds:
  fixes s :: real
  shows "- 0.9999 \<le> min (max s (- 0.9999)) 0.9999" "min (max s (- 0.9999)) 0.9999 \<le> 0.9999"
    "- 1 < min (max s (- 0.9999)) 0.9999" "min (max s (- 0.9999)) 0.9999 < 1"
  by (simp_all add: min_def max_def)

lemma clamp_siny_mono:
  fixes s t :: real
  shows "s \<le> t \<Longrightarrow> min (max s (- 0.9999)) 0.9999 \<le> min (max t (- 0.9999)) 0.9999"
  by (simp add: min_def max_def)

lemma proj_fst: "fst (lat_lon_to_tile_coords lat lon S) = S * (0.5 + lon / 360)"
  by (simp add: lat_lon_to_tile_coords_def Let_def)

lemma proj_snd:
  "snd (lat_lon_to_tile_coords lat lon S) =
     S * (0.5 - ln ((1 + min (max (sin (lat * pi / 180)) (- 0.9999)) 0.9999)
                     / (1 - min (max (sin (lat * pi / 180)) (- 0.9999)) 0.9999)) / (4 * pi))"
  by (simp add: lat_lon_to_tile_coords_def Let_def)

text \<open>The y coordinate falls when the Mercator term grows.\<close>

lemma proj_y_antitone:
  fixes S a b :: real
  assumes "0 \<le> S" "a \<le> b"
  shows "S * (0.5 - b / (4 * pi)) \<le> S * (0.5 - a / (4 * pi))"
proof -
  have "a / (4 * pi) \<le> b / (4 * pi)" using assms(2) by (intro divide_right_mono) simp_all
  then show ?thesis using assms(1) by (intro mult_left_mono) simp_all
qed

lemma shift_scale_Inr: "shift_scale z = Inr scale \<Longrightarrow> 0 \<le> z \<and> scale = 2 ^ nat z"
  by (auto simp: shift_scale_def split: if_splits)

lemma sin_deg_mono:
  fixes lat lat' :: real
  assumes "- 90 \<le> lat" "lat \<le> lat'" "lat' \<le> 90"
  shows "sin (lat * pi / 180) \<le> sin (lat' * pi / 180)"
proof (rule sin_monotone_2pi_le)
  have "- 90 * pi \<le> lat * pi" using assms(1) by (intro mult_right_mono) simp_all
  then show "- (pi / 2) \<le> lat * pi / 180" by simp
  have "lat * pi \<le> lat' * pi" using assms(2) by (intro mult_right_mono) simp_all
  then show "lat * pi / 180 \<le> lat' * pi / 180" by simp
  have "lat' * pi \<le> 90 * pi" using assms(3) by (intro mult_right_mono) simp_all
  then show "lat' * pi / 180 \<le> pi / 2" by simp
qed

text \<open>
  Latitude 30 has \<open>siny = 1 / 2\<close> exactly; \<open>1 \<le> ln 3 \<le> 2\<close> and \<open>2 \<le> pi < 4\<close> place
  its y coordinate at zoom 0 between \<open>1 / 4\<close> and \<open>7 / 16\<close>, that is in tile row 0 and
  between the pixel rows 64 and 112 of a 256-pixel tile.
\<close>

lemma ln_3_bounds: "1 \<le> ln (3 :: real)" "ln (3 :: real) \<le> 2"
proof -
  show "1 \<le> ln (3 :: real)" using exp_le by (simp add: ln_ge_iff)
  have "(3 :: real) \<le> exp 2" using exp_ge_add_one_self [of "2 :: real"] by simp
  then have "ln (3 :: real) \<le> ln (exp 2)" by (subst ln_le_cancel_iff) simp_all
  then show "ln (3 :: real) \<le> 2" by simp
qed

lemma proj_lat_30:
  "lat_lon_to_tile_coords 30 lon 1 = (1 / 2 + lon / 360, 1 / 2 - ln 3 / (4 * pi))"
proof -
  show ?thesis by (simp add: lat_lon_to_tile_coords_def Let_def sin_30)
qed

lemma proj_lat_30_y_bounds:
  "1 / 4 \<le> 1 / 2 - ln 3 / (4 * pi)" "1 / 2 - ln 3 / (4 * pi) < 7 / 16"
proof -
  have "ln 3 \<le> pi" using ln_3_bounds(2) pi_ge_two by linarith
  then show "1 / 4 \<le> 1 / 2 - ln 3 / (4 * pi)" by (simp add: field_simps)
  have "4 * pi < 16 * ln 3" using ln_3_bounds(1) pi_less_4 by linarith
  then show "1 / 2 - ln 3 / (4 * pi) < 7 / 16" by (simp add: field_simps)
qed

lemma quarter_rows:
  fixes Y :: real
  assumes "1 / 4 \<le> Y" "Y < 7 / 16"
  shows "py_int Y = 0" "64 \<le> py_int (Y * 256)" "py_int (Y * 256) < 112"
  using assms by (simp_all add: py_int_def floor_eq_iff le_floor_iff floor_less_iff)

section \<open>The projection\<close>

text \<open>
  C1 (amended).  Over the reals, for latitude in \<open>[-90, 90]\<close>, longitude in \<open>[-180, 180]\<close>
  and a non-negative integer zoom with \<open>scale = 2 ^ zoom\<close>: the projection returns
  \<open>x = scale * (0.5 + lon / 360)\<close> and
  \<open>y = scale * (0.5 - ln ((1 + siny) / (1 - siny)) / (4 * pi))\<close> with \<open>siny\<close> the sine of
  the latitude clamped to \<open>[-0.9999, 0.9999]\<close>; \<open>x\<close> lies in \<open>[0, 2 ^ zoom]\<close>; \<open>y\<close> lies
  in \<open>[2 ^ zoom * (0.5 - ln 19999 / (4 * pi)), 2 ^ zoom * (0.5 + ln 19999 / (4 * pi))]\<close>, and
  in \<open>[0, 2 ^ zoom]\<close> when \<open>|sin (lat * pi / 180)| \<le> tanh pi\<close> (latitudes up to about 85.05
  degrees); \<open>x\<close> is non-decreasing in the longitude and \<open>y\<close> is non-increasing in the
  latitude.
\<close>

theorem projection_properties:
  assumes "shift_scale z = Inr scale"
    and "- 90 \<le> lat" "lat \<le> 90" "- 180 \<le> lon" "lon \<le> 180"
  shows "real_of_int scale = 2 ^ nat z \<and>
         fst (lat_lon_to_tile_coords lat lon (real_of_int scale))
           = real_of_int scale * (0.5 + lon / 360) \<and>
         snd (lat_lon_to_tile_coords lat lon (real_of_int scale))
           = real_of_int scale *
               (0.5 - ln ((1 + min (max (sin (lat * pi / 180)) (- 0.9999)) 0.9999)
                          / (1 - min (max (sin (lat * pi / 180)) (- 0.9999)) 0.9999))
                      / (4 * pi)) \<and>
         0 \<le> fst (lat_lon_to_tile_coords lat lon (real_of_int scale)) \<and>
         fst (lat_lon_to_tile_coords lat lon (real_of_int scale)) \<le> 2 ^ nat z \<and>
         2 ^ nat z * (0.5 - ln 19999 / (4 * pi))
           \<le> snd (lat_lon_to_tile_coords lat lon (real_of_int scale)) \<and>
         snd (lat_lon_to_tile_coords lat lon (real_of_int scale))
           \<le> 2 ^ nat z * (0.5 + ln 19999 / (4 * pi)) \<and>
         (\<bar>sin (lat * pi / 180)\<bar> \<le> tanh pi \<longrightarrow>
            0 \<le> snd (lat_lon_to_tile_coords lat lon (real_of_int scale)) \<and>
            snd (lat_lon_to_tile_coords lat lon (real_of_int scale)) \<le> 2 ^ nat z) \<and>
         (\<forall>lon'. lon \<le> lon' \<longrightarrow>
            fst (lat_lon_to_tile_coords lat lon (real_of_int scale))
              \<le> fst (lat_lon_to_tile_coords lat lon' (real_of_int scale))) \<and>
         (\<forall>lat'. lat \<le> lat' \<and> lat' \<le> 90 \<longrightarrow>
            snd (lat_lon_to_tile_coords lat' lon (real_of_int scale))
              \<le> snd (lat_lon_to_tile_coords lat lon (real_of_int scale)))"
proof -
  define S :: real where "S = real_of_int scale"
  define c where "c = min (max (sin (lat * pi / 180)) (- 0.9999)) (0.9999 :: real)"
  define m where "m = ln ((1 + c) / (1 - c))"
  have S: "S = 2 ^ nat z" "0 \<le> S" using shift_scale_Inr [OF assms(1)] by (simp_all add: S_def)
  have x: "fst (lat_lon_to_tile_coords lat l S) = S * (0.5 + l / 360)" for l
    by (rule proj_fst)
  have y: "snd (lat_lon_to_tile_coords lat lon S) = S * (0.5 - m / (4 * pi))"
    unfolding m_def c_def by (rule proj_snd)
  have cb: "- 0.9999 \<le> c" "c \<le> 0.9999" "- 1 < c" "c < 1"
    unfolding c_def by (rule clamp_siny_bounds)+
  have "m \<le> ln 19999"
    unfolding m_def using mercator_mono [OF cb(3) cb(2)] mercator_at_clamp(1) by simp
  from proj_y_antitone [OF S(2) this]
  have ylo: "S * (0.5 - ln 19999 / (4 * pi)) \<le> snd (lat_lon_to_tile_coords lat lon S)"
    unfolding y .
  have "- ln 19999 \<le> m"
    unfolding m_def using mercator_mono [OF _ cb(1) cb(4)] mercator_at_clamp(2) by simp
  from proj_y_antitone [OF S(2) this]
  have yhi: "snd (lat_lon_to_tile_coords lat lon S) \<le> S * (0.5 + ln 19999 / (4 * pi))"
    unfolding y by simp
  have x0: "0 \<le> fst (lat_lon_to_tile_coords lat lon S)"
    unfolding x using S(2) assms(4) by (intro mult_nonneg_nonneg) simp_all
  have "S * (0.5 + lon / 360) \<le> S * 1"
    using S(2) assms(5) by (intro mult_left_mono) simp_all
  then have x1: "fst (lat_lon_to_tile_coords lat lon S) \<le> S" unfolding x by simp
  have merc: "0 \<le> snd (lat_lon_to_tile_coords lat lon S) \<and>
      snd (lat_lon_to_tile_coords lat lon S) \<le> S"
    if t: "\<bar>sin (lat * pi / 180)\<bar> \<le> tanh pi"
  proof -
    have tp: "0 < tanh pi" "tanh pi < 1" by (simp_all add: tanh_real_lt_1)
    have c1: "c \<le> tanh pi" and c2: "tanh (- pi) \<le> c"
      unfolding c_def using t tp by (simp_all add: min_def max_def abs_le_iff)
    have "m \<le> 2 * pi"
      unfolding m_def using mercator_mono [OF cb(3) c1 tp(2)] by (simp add: mercator_tanh)
    from proj_y_antitone [OF S(2) this]
    have a: "0 \<le> snd (lat_lon_to_tile_coords lat lon S)" unfolding y by simp
    have "- 1 < tanh (- pi)" by (rule tanh_real_gt_neg1)
    from mercator_mono [OF this c2 cb(4)] have "- (2 * pi) \<le> m"
      unfolding m_def by (simp only: mercator_tanh)
    from proj_y_antitone [OF S(2) this]
    have b: "snd (lat_lon_to_tile_coords lat lon S) \<le> S" unfolding y by simp
    from a b show ?thesis ..
  qed
  have xm: "fst (lat_lon_to_tile_coords lat lon S) \<le> fst (lat_lon_to_tile_coords lat lon' S)"
    if "lon \<le> lon'" for lon'
    unfolding x using S(2) that by (intro mult_left_mono) simp_all
  have ym: "snd (lat_lon_to_tile_coords lat' lon S) \<le> snd (lat_lon_to_tile_coords lat lon S)"
    if l: "lat \<le> lat' \<and> lat' \<le> 90" for lat'
  proof -
    define c' where "c' = min (max (sin (lat' * pi / 180)) (- 0.9999)) (0.9999 :: real)"
    have "sin (lat * pi / 180) \<le> sin (lat' * pi / 180)"
      using sin_deg_mono [OF assms(2)] l by simp
    then have "c \<le> c'" unfolding c_def c'_def by (rule clamp_siny_mono)
    moreover have "c' < 1" unfolding c'_def by (rule clamp_siny_bounds)
    ultimately have "m \<le> ln ((1 + c') / (1 - c'))"
      unfolding m_def using cb(3) by (intro mercator_mono)
    from proj_y_antitone [OF S(2) this] show ?thesis
      unfolding y proj_snd [of lat'] c'_def .
  qed
  have P: "(2 :: real) ^ nat z = S" using S(1) by simp
  show ?thesis
    unfolding S_def [symmetric] P
  proof (intro conjI allI impI)
    show "S = S" ..
    show "fst (lat_lon_to_tile_coords lat lon S) = S * (0.5 + lon / 360)" by (rule x)
    show "snd (lat_lon_to_tile_coords lat lon S) =
        S * (0.5 - ln ((1 + min (max (sin (lat * pi / 180)) (- 0.9999)) 0.9999)
                     / (1 - min (max (sin (lat * pi / 180)) (- 0.9999)) 0.9999)) / (4 * pi))"
      by (rule proj_snd)
    show "0 \<le> fst (lat_lon_to_tile_coords lat lon S)" by (rule x0)
    show "fst (lat_lon_to_tile_coords lat lon S) \<le> S" by (rule x1)
    show "S * (0.5 - ln 19999 / (4 * pi)) \<le> snd (lat_lon_to_tile_coords lat lon S)"
      by (rule ylo)
    show "snd (lat_lon_to_tile_coords lat lon S) \<le> S * (0.5 + ln 19999 / (4 * pi))"
      by (rule yhi)
    show "0 \<le> snd (lat_lon_to_tile_coords lat lon S)"
      if "\<bar>sin (lat * pi / 180)\<bar> \<le> tanh pi" using merc [OF that] ..
    show "snd (lat_lon_to_tile_coords lat lon S) \<le> S"
      if "\<bar>sin (lat * pi / 180)\<bar> \<le> tanh pi" using merc [OF that] ..
    show "fst (lat_lon_to_tile_coords lat lon S) \<le> fst (lat_lon_to_tile_coords lat lon' S)"
      if "lon \<le> lon'" for lon' using that by (rule xm)
    show "snd (lat_lon_to_tile_coords lat' lon S) \<le> snd (lat_lon_to_tile_coords lat lon S)"
      if "lat \<le> lat' \<and> lat' \<le> 90" for lat' using that by (rule ym)
  qed
qed

theorem projection_properties_witness:
  "shift_scale 2 = Inr 4 \<and>
   fst (lat_lon_to_tile_coords 0 90 4) = 3 \<and>
   snd (lat_lon_to_tile_coords 0 90 4) = 2 \<and>
   \<bar>sin (0 * pi / 180 :: real)\<bar> \<le> tanh pi \<and>
   0 \<le> snd (lat_lon_to_tile_coords 0 90 4) \<and> snd (lat_lon_to_tile_coords 0 90 4) \<le> 2 ^ 2 \<and>
   fst (lat_lon_to_tile_coords 0 90 4) \<le> fst (lat_lon_to_tile_coords 0 180 4)"
  using projection_properties [of 2 4 0 90]
  by (simp add: shift_scale_def lat_lon_to_tile_coords_def Let_def)

text \<open>
  At the pole the clamp leaves \<open>siny = 0.9999\<close>, and
  \<open>ln 19999 / (4 * pi) > 1 / 2\<close>: at latitude 90, zoom 0 the y coordinate is negative.
\<close>

theorem projection_y_range_counterexample:
  "snd (lat_lon_to_tile_coords 90 0 (2 ^ 0)) < 0"
proof -
  have "sin (90 * pi / 180 :: real) = 1" by simp
  then have "snd (lat_lon_to_tile_coords 90 0 (2 ^ 0)) = 0.5 - ln 19999 / (4 * pi)"
    by (simp add: lat_lon_to_tile_coords_def Let_def)
  moreover have "(0.5 :: real) < ln 19999 / (4 * pi)"
    using two_pi_less_ln by (simp add: field_simps)
  ultimately show ?thesis by simp
qed

section \<open>Pixel origin and tile offsets\<close>

text \<open>
  C4 (amended).  The pixel origin subtracted from every tile position is the truncated pixel
  coordinate of the top-left corner, \<open>(int(topLeft.x * tileW), int(topLeft.y * tileH))\<close>,
  and not \<open>floor(topLeft.x) * tileW\<close>; for a non-negative coordinate and a positive tile
  size it lies inside the first planned tile.  The offsets of tile \<open>(tile_x, tile_y)\<close> are
  \<open>tile_x * tileW - originX\<close> and \<open>tile_y * tileH - originY\<close>.
\<close>

theorem pixel_origin_and_offsets:
  assumes "g = plan_geometry (px, py) (qx, qy) (tw, th, ch)"
  shows "tl_pixel_x g = py_int (px * real_of_int tw) \<and>
         tl_pixel_y g = py_int (py * real_of_int th) \<and>
         tl_rel_x (place_tile g tile_x tile_y) = tile_x * tw - tl_pixel_x g \<and>
         tl_rel_y (place_tile g tile_x tile_y) = tile_y * th - tl_pixel_y g \<and>
         (0 \<le> px \<and> 0 < tw \<longrightarrow>
            \<lfloor>px\<rfloor> * tw \<le> tl_pixel_x g \<and> tl_pixel_x g < (\<lfloor>px\<rfloor> + 1) * tw) \<and>
         (0 \<le> py \<and> 0 < th \<longrightarrow>
            \<lfloor>py\<rfloor> * th \<le> tl_pixel_y g \<and> tl_pixel_y g < (\<lfloor>py\<rfloor> + 1) * th)"
proof -
  have a: "0 \<le> p \<and> 0 < t \<longrightarrow>
        \<lfloor>p\<rfloor> * t \<le> py_int (p * real_of_int t) \<and> py_int (p * real_of_int t) < (\<lfloor>p\<rfloor> + 1) * t"
    for p :: real and t :: int
    using py_int_scaled_ge [of p t] py_int_scaled_less [of t p] by (auto simp: py_int_nonneg)
  show ?thesis
    unfolding assms plan_geometry_fields place_tile_fields using a [of px tw] a [of py th]
    by simp
qed

theorem pixel_origin_and_offsets_witness:
  "tl_pixel_x (plan_geometry (5/2, 1/2) (3, 1/2) (256, 256, 3)) = 640 \<and>
   tl_pixel_y (plan_geometry (5/2, 1/2) (3, 1/2) (256, 256, 3)) = 128 \<and>
   tl_rel_x (place_tile (plan_geometry (5/2, 1/2) (3, 1/2) (256, 256, 3)) 2 0) = - 128 \<and>
   tl_rel_y (place_tile (plan_geometry (5/2, 1/2) (3, 1/2) (256, 256, 3)) 2 0) = - 128 \<and>
   (2 :: int) * 256 \<le> 640 \<and> (640 :: int) < (2 + 1) * 256"
  using pixel_origin_and_offsets
    [of "plan_geometry (5/2, 1/2) (3, 1/2) (256, 256, 3)" "5/2" "1/2" 3 "1/2" 256 256 3 2 0]
  by (simp add: py_int_def)

text \<open>
  At latitude 0, longitude 0, zoom 0 and 256-pixel tiles the corner projects to
  \<open>(1/2, 1/2)\<close>: the origin is 128, while \<open>floor(topLeft.x) * 256 = 0\<close>, and the offset
  of tile 0 is \<open>-128\<close>, not 0.
\<close>

theorem pixel_origin_counterexample:
  "tl_pixel_x (plan_geometry (lat_lon_to_tile_coords 0 0 1) (lat_lon_to_tile_coords 0 90 1)
       (256, 256, 3))
     \<noteq> \<lfloor>fst (lat_lon_to_tile_coords 0 0 1)\<rfloor> * 256 \<and>
   tl_rel_x (place_tile (plan_geometry (lat_lon_to_tile_coords 0 0 1)
       (lat_lon_to_tile_coords 0 90 1) (256, 256, 3)) 0 0)
     \<noteq> 0 * 256 - \<lfloor>fst (lat_lon_to_tile_coords 0 0 1)\<rfloor> * 256"
  by (simp add: lat_lon_to_tile_coords_def plan_geometry_def place_tile_def py_int_def Let_def)

section \<open>Canvas size\<close>

text \<open>
  C5.  Whenever \<open>download_map_region\<close> gets as far as returning (the zoom is a valid shift,
  the probe returns and \<open>np.zeros\<close> accepts the dimensions), the allocated canvas has
  width \<open>|pixelX(topLeft) - pixelX(bottomRight)|\<close> and height
  \<open>pixelY(bottomRight) - pixelY(topLeft)\<close>, the pixel coordinates being the projected corner
  coordinates times the probed tile width and height, truncated by \<open>int\<close>; its third axis
  is the probed channel count.
\<close>

theorem canvas_dimensions:
  assumes "download_map_region get imdecode imwrite la1 lo1 la2 lo2 z fname = Inr res"
  shows "\<exists>scale tw th ch.
           shift_scale z = Inr scale \<and>
           get_image_info get imdecode
             (py_int (fst (lat_lon_to_tile_coords la1 lo1 (real_of_int scale))))
             (py_int (snd (lat_lon_to_tile_coords la1 lo1 (real_of_int scale)))) z
             = Inr (tw, th, ch) \<and>
           int (canvas res ! 1) =
             \<bar>py_int (fst (lat_lon_to_tile_coords la1 lo1 (real_of_int scale)) * real_of_int tw)
              - py_int (fst (lat_lon_to_tile_coords la2 lo2 (real_of_int scale)) * real_of_int tw)\<bar> \<and>
           int (canvas res ! 0) =
             py_int (snd (lat_lon_to_tile_coords la2 lo2 (real_of_int scale)) * real_of_int th)
              - py_int (snd (lat_lon_to_tile_coords la1 lo1 (real_of_int scale)) * real_of_int th) \<and>
           int (canvas res ! 2) = ch \<and>
           length (canvas res) = 3 \<and>
           img_w (geom res) = int (canvas res ! 1) \<and>
           img_h (geom res) = int (canvas res ! 0)"
proof -
  obtain scale where sc: "shift_scale z = Inr scale"
    using assms by (auto simp: download_map_region_def split: sum.splits)
  define tl where "tl = lat_lon_to_tile_coords la1 lo1 (real_of_int scale)"
  define br where "br = lat_lon_to_tile_coords la2 lo2 (real_of_int scale)"
  obtain tw th ch where
    info: "get_image_info get imdecode (py_int (fst tl)) (py_int (snd tl)) z = Inr (tw, th, ch)"
    using assms sc
    by (auto simp: download_map_region_def Let_def tl_def split: sum.splits)
  define g where "g = plan_geometry tl br (tw, th, ch)"
  obtain bar where bar: "ProgressBar (tiles_total g) = Inr bar"
    using assms sc info
    by (auto simp: download_map_region_def Let_def tl_def br_def g_def split: sum.splits)
  obtain img where img: "np_zeros (img_h g) (img_w g) (tile_channels g) = Inr img"
    using assms sc info bar
    by (auto simp: download_map_region_def Let_def tl_def br_def g_def split: sum.splits)
  have res: "geom res = g" "canvas res = img"
    using assms sc info bar img
    by (auto simp: download_map_region_def Let_def tl_def br_def g_def
             split: sum.splits prod.splits)
  have gf: "img_w g = \<bar>py_int (fst tl * real_of_int tw) - py_int (fst br * real_of_int tw)\<bar>"
    "img_h g = py_int (snd br * real_of_int th) - py_int (snd tl * real_of_int th)"
    "tile_channels g = ch"
    unfolding g_def by (cases tl; cases br; simp add: plan_geometry_fields)+
  from np_zeros_Inr [OF img] gf res sc info
  show ?thesis
    unfolding tl_def br_def by (intro exI [of _ scale] exI [of _ tw] exI [of _ th] exI [of _ ch]) simp
qed

text \<open>
  Corners (30, 0) and (0, 90) at zoom 0 on a server that answers 404: the probe falls back
  to 256-pixel tiles and the canvas is 64 pixels wide and between 17 and 64 pixels high.
\<close>

theorem canvas_dimensions_witness:
  "\<exists>res. download_map_region (\<lambda>x y z. Inr \<lparr> status_code = 404, content = ''Not Found'' \<rparr>)
            (\<lambda>b. Inr None) (\<lambda>f a. Inr True) 30 0 0 90 0 ''map.png'' = Inr res \<and>
         canvas res ! 1 = 64 \<and> 16 < canvas res ! 0 \<and> canvas res ! 0 \<le> 64 \<and>
         canvas res ! 2 = 1"
proof -
  define Y :: real where "Y = 1 / 2 - ln 3 / (4 * pi)"
  define h where "h = py_int (Y * 256)"
  have Yb: "1 / 4 \<le> Y" "Y < 7 / 16" unfolding Y_def by (rule proj_lat_30_y_bounds)+
  note q = quarter_rows [OF Yb]
  have hb: "64 \<le> h" "h < 112" unfolding h_def by (rule q)+
  have tl: "lat_lon_to_tile_coords 30 0 1 = (1 / 2, Y)"
    using proj_lat_30 [of 0] by (simp add: Y_def)
  have br: "lat_lon_to_tile_coords 0 90 1 = (3 / 4, 1 / 2)"
    by (simp add: lat_lon_to_tile_coords_def Let_def)
  have g: "plan_geometry (1 / 2, Y) (3 / 4, 1 / 2) (256, 256, 1)
         = \<lparr> tile_size_x = 256, tile_size_y = 256, tile_channels = 1,
              tl_pixel_x = 128, tl_pixel_y = h, br_pixel_x = 192, br_pixel_y = 128,
              tl_tile_x = 0, tl_tile_y = 0, br_tile_x = 0, br_tile_y = 0,
              img_w = 64, img_h = 128 - h, tiles_total = 1 \<rparr>"
    by (simp add: plan_geometry_def Let_def q(1) h_def [symmetric]) (simp add: py_int_def)
  have e: "download_map_region (\<lambda>x y z. Inr \<lparr> status_code = 404, content = ''Not Found'' \<rparr>)
            (\<lambda>b. Inr None) (\<lambda>f a. Inr True) 30 0 0 90 0 ''map.png''
        = Inr \<lparr> geom = plan_geometry (1 / 2, Y) (3 / 4, 1 / 2) (256, 256, 1),
                canvas = [nat (128 - h), 64, 1], thread_errors = [None],
                final = \<lparr> tiles_current = 0, bar_updates = [], writes = [] \<rparr>,
                prints = [Saving_image ''map.png'', Done] \<rparr>"
    unfolding download_map_region_def using hb
    by (simp add: shift_scale_def tl br get_image_info_def Let_def q(1) g
          ProgressBar_def np_zeros_def build_row_def)
  have n: "16 < nat (128 - h)" "nat (128 - h) \<le> 64" using hb by linarith+
  from canvas_dimensions [OF e] e n show ?thesis by simp
qed

section \<open>Tile ranges and the tile total\<close>

text \<open>
  C6 (amended).  For non-negative projected corner coordinates the columns fetched by every
  row task are \<open>floor(topLeft.x) .. floor(bottomRight.x)\<close> and the rows are
  \<open>floor(topLeft.y) .. floor(bottomRight.y)\<close>, both inclusive.  The precomputed total is the
  product of the two counts when the corners are in order, that is when neither range is
  empty.
\<close>

theorem tile_ranges_and_total:
  assumes "g = plan_geometry (px, py) (qx, qy) (tw, th, ch)"
    and "0 \<le> px" "0 \<le> py" "0 \<le> qx" "0 \<le> qy"
  shows "[tl_tile_x g .. br_tile_x g] = [\<lfloor>px\<rfloor> .. \<lfloor>qx\<rfloor>] \<and>
         [tl_tile_y g .. br_tile_y g] = [\<lfloor>py\<rfloor> .. \<lfloor>qy\<rfloor>] \<and>
         build_row get imdecode g img z ty st =
           build_row_tiles get imdecode g img z ty [\<lfloor>px\<rfloor> .. \<lfloor>qx\<rfloor>] st \<and>
         (\<lfloor>px\<rfloor> \<le> \<lfloor>qx\<rfloor> \<and> \<lfloor>py\<rfloor> \<le> \<lfloor>qy\<rfloor> \<longrightarrow>
            tiles_total g =
              int (length [\<lfloor>px\<rfloor> .. \<lfloor>qx\<rfloor>]) * int (length [\<lfloor>py\<rfloor> .. \<lfloor>qy\<rfloor>]))"
  using assms by (simp add: plan_geometry_fields py_int_nonneg build_row_def)

theorem tile_ranges_and_total_witness:
  "[tl_tile_x (plan_geometry (5/2, 1/2) (9/2, 7/4) (256, 256, 3)) ..
    br_tile_x (plan_geometry (5/2, 1/2) (9/2, 7/4) (256, 256, 3))] = [2, 3, 4] \<and>
   [tl_tile_y (plan_geometry (5/2, 1/2) (9/2, 7/4) (256, 256, 3)) ..
    br_tile_y (plan_geometry (5/2, 1/2) (9/2, 7/4) (256, 256, 3))] = [0, 1] \<and>
   tiles_total (plan_geometry (5/2, 1/2) (9/2, 7/4) (256, 256, 3)) = 6"
  using tile_ranges_and_total
    [of "plan_geometry (5/2, 1/2) (9/2, 7/4) (256, 256, 3)" "5/2" "1/2" "9/2" "7/4" 256 256 3]
  by (simp add: upto.simps)

text \<open>
  With the corners swapped in longitude (latitude 0, longitudes 90 and -90, zoom 2) the
  column range \<open>3 .. 1\<close> is empty, no tile is fetched, and the precomputed total is
  \<open>(1 - 3 + 1) * 1 = -1\<close>.
\<close>

theorem tiles_total_counterexample:
  "tiles_total (plan_geometry (lat_lon_to_tile_coords 0 90 4) (lat_lon_to_tile_coords 0 (- 90) 4)
       (256, 256, 3))
   \<noteq> int (length [tl_tile_x (plan_geometry (lat_lon_to_tile_coords 0 90 4)
                        (lat_lon_to_tile_coords 0 (- 90) 4) (256, 256, 3)) ..
                   br_tile_x (plan_geometry (lat_lon_to_tile_coords 0 90 4)
                        (lat_lon_to_tile_coords 0 (- 90) 4) (256, 256, 3))])
     * int (length [tl_tile_y (plan_geometry (lat_lon_to_tile_coords 0 90 4)
                        (lat_lon_to_tile_coords 0 (- 90) 4) (256, 256, 3)) ..
                   br_tile_y (plan_geometry (lat_lon_to_tile_coords 0 90 4)
                        (lat_lon_to_tile_coords 0 (- 90) 4) (256, 256, 3))])"
  by (simp add: lat_lon_to_tile_coords_def plan_geometry_def py_int_def Let_def)

section \<open>Row bands\<close>

lemma slice_range_subset:
  assumes "0 \<le> lo" "0 \<le> hi"
  shows "int ` {fst (slice_range lo hi n) ..< snd (slice_range lo hi n)} \<subseteq> {lo ..< hi}"
  using assms by (auto simp: slice_range_def slice_bound_def Let_def)

lemma nominal_rows_ordered:
  assumes "0 < tile_size_y g" "tya < tyb"
  shows "img_y_r (place_tile g txa tya) \<le> img_y_l (place_tile g txb tyb)"
proof -
  have "(tya + 1) * tile_size_y g \<le> tyb * tile_size_y g"
    using assms by (intro mult_right_mono) auto
  then show ?thesis by (simp add: place_tile_fields algebra_simps)
qed

lemma nominal_rows_disjoint:
  assumes "0 < tile_size_y g" "tya \<noteq> tyb"
  shows "{img_y_l (place_tile g txa tya) ..< img_y_r (place_tile g txa tya)} \<inter>
         {img_y_l (place_tile g txb tyb) ..< img_y_r (place_tile g txb tyb)} = {}"
proof (cases "tya < tyb")
  case True
  from nominal_rows_ordered [OF assms(1) True, of txa txb] show ?thesis by auto
next
  case False
  then have "tyb < tya" using assms(2) by simp
  from nominal_rows_ordered [OF assms(1) this, of txb txa] show ?thesis by auto
qed

lemma planned_row_stop_nonneg:
  assumes "g = plan_geometry (px, py) (qx, qy) (tw, th, ch)" "0 < th" "0 \<le> img_h g"
    and "ty \<in> set [tl_tile_y g .. br_tile_y g]"
  shows "0 \<le> img_y_l (place_tile g tx ty)" "0 \<le> img_y_r (place_tile g tx ty)"
proof -
  have "py_int py \<le> ty" using assms(1,4) by (simp add: plan_geometry_fields)
  from planned_far_edge_positive [OF assms(2) this] assms(1,3)
  show "0 \<le> img_y_r (place_tile g tx ty)"
    by (simp add: place_tile_fields plan_geometry_fields)
  show "0 \<le> img_y_l (place_tile g tx ty)" by (simp add: place_tile_fields)
qed

text \<open>
  C2.  For two distinct tile rows processed by the stitch (a positive tile height, a canvas
  that was allocated), the destination Y bounds depend on the row's \<open>tile_y\<close> only, the
  half-open intervals \<open>[img_y_l, img_y_r)\<close> of the two rows are disjoint, and so are the
  canvas rows that the two slices actually select, whatever the columns and the canvas.
\<close>

theorem row_bands_disjoint:
  assumes "g = plan_geometry (px, py) (qx, qy) (tw, th, ch)" "0 < th" "0 \<le> img_h g"
    and "tya \<in> set [tl_tile_y g .. br_tile_y g]" "tyb \<in> set [tl_tile_y g .. br_tile_y g]"
    and "tya \<noteq> tyb"
  shows "img_y_l (place_tile g txa tya) = max 0 (tya * th - tl_pixel_y g) \<and>
         img_y_r (place_tile g txa tya) = min (img_h g + 1) (tya * th - tl_pixel_y g + th) \<and>
         {img_y_l (place_tile g txa tya) ..< img_y_r (place_tile g txa tya)} \<inter>
         {img_y_l (place_tile g txb tyb) ..< img_y_r (place_tile g txb tyb)} = {} \<and>
         {row_lo (dest_rect img (place_tile g txa tya)) ..<
          row_hi (dest_rect img (place_tile g txa tya))} \<inter>
         {row_lo (dest_rect img (place_tile g txb tyb)) ..<
          row_hi (dest_rect img (place_tile g txb tyb))} = {}"
proof -
  have th: "tile_size_y g = th" using assms(1) by (simp add: plan_geometry_fields)
  have nom: "{img_y_l (place_tile g txa tya) ..< img_y_r (place_tile g txa tya)} \<inter>
         {img_y_l (place_tile g txb tyb) ..< img_y_r (place_tile g txb tyb)} = {}"
    using nominal_rows_disjoint [of g tya tyb txa txb] assms(2,6) th by simp
  have s1: "int ` {row_lo (dest_rect img (place_tile g txa tya)) ..<
          row_hi (dest_rect img (place_tile g txa tya))}
        \<subseteq> {img_y_l (place_tile g txa tya) ..< img_y_r (place_tile g txa tya)}"
    unfolding dest_rect_rows
    by (rule slice_range_subset) (rule planned_row_stop_nonneg [OF assms(1,2,3,4)])+
  have s2: "int ` {row_lo (dest_rect img (place_tile g txb tyb)) ..<
          row_hi (dest_rect img (place_tile g txb tyb))}
        \<subseteq> {img_y_l (place_tile g txb tyb) ..< img_y_r (place_tile g txb tyb)}"
    unfolding dest_rect_rows
    by (rule slice_range_subset) (rule planned_row_stop_nonneg [OF assms(1,2,3,5)])+
  have act: "{row_lo (dest_rect img (place_tile g txa tya)) ..<
          row_hi (dest_rect img (place_tile g txa tya))} \<inter>
         {row_lo (dest_rect img (place_tile g txb tyb)) ..<
          row_hi (dest_rect img (place_tile g txb tyb))} = {}"
    using nom s1 s2 by blast
  show ?thesis using nom act th by (simp add: place_tile_fields)
qed

theorem row_bands_disjoint_witness:
  "0 \<le> img_h (plan_geometry (5/2, 1/2) (9/2, 7/4) (256, 256, 3)) \<and>
   0 \<in> set [tl_tile_y (plan_geometry (5/2, 1/2) (9/2, 7/4) (256, 256, 3)) .. br_tile_y (plan_geometry (5/2, 1/2) (9/2, 7/4) (256, 256, 3))] \<and>
   1 \<in> set [tl_tile_y (plan_geometry (5/2, 1/2) (9/2, 7/4) (256, 256, 3)) .. br_tile_y (plan_geometry (5/2, 1/2) (9/2, 7/4) (256, 256, 3))] \<and>
   {img_y_l (place_tile (plan_geometry (5/2, 1/2) (9/2, 7/4) (256, 256, 3)) 2 0) ..< img_y_r (place_tile (plan_geometry (5/2, 1/2) (9/2, 7/4) (256, 256, 3)) 2 0)} = {0 ..< 128} \<and>
   {img_y_l (place_tile (plan_geometry (5/2, 1/2) (9/2, 7/4) (256, 256, 3)) 4 1) ..< img_y_r (place_tile (plan_geometry (5/2, 1/2) (9/2, 7/4) (256, 256, 3)) 4 1)} = {128 ..< 321} \<and>
   {img_y_l (place_tile (plan_geometry (5/2, 1/2) (9/2, 7/4) (256, 256, 3)) 2 0) ..< img_y_r (place_tile (plan_geometry (5/2, 1/2) (9/2, 7/4) (256, 256, 3)) 2 0)} \<inter>
   {img_y_l (place_tile (plan_geometry (5/2, 1/2) (9/2, 7/4) (256, 256, 3)) 4 1) ..< img_y_r (place_tile (plan_geometry (5/2, 1/2) (9/2, 7/4) (256, 256, 3)) 4 1)} = {} \<and>
   {row_lo (dest_rect [320, 512, 3] (place_tile (plan_geometry (5/2, 1/2) (9/2, 7/4) (256, 256, 3)) 2 0)) ..<
    row_hi (dest_rect [320, 512, 3] (place_tile (plan_geometry (5/2, 1/2) (9/2, 7/4) (256, 256, 3)) 2 0))} \<inter>
   {row_lo (dest_rect [320, 512, 3] (place_tile (plan_geometry (5/2, 1/2) (9/2, 7/4) (256, 256, 3)) 4 1)) ..<
    row_hi (dest_rect [320, 512, 3] (place_tile (plan_geometry (5/2, 1/2) (9/2, 7/4) (256, 256, 3)) 4 1))} = {}"
  using row_bands_disjoint
    [where g = "plan_geometry (5/2, 1/2) (9/2, 7/4) (256, 256, 3)" and px = "5/2" and py = "1/2" and qx = "9/2" and qy = "7/4"
       and tw = 256 and th = 256 and ch = 3 and tya = 0 and tyb = 1 and txa = 2 and txb = 4
       and img = "[320, 512, 3]"]
  by (simp add: plan_geometry_fields place_tile_fields py_int_def upto.simps)

section \<open>Destination rectangles\<close>

text \<open>One axis: the computed bounds and the slice they select, from the two offset facts.\<close>

lemma axis_dest_bounds:
  fixes rel t n :: int
  assumes "0 \<le> n" "0 < t" "rel \<le> n" "1 \<le> rel + t"
  shows "0 \<le> max 0 rel" "max 0 rel \<le> min (n + 1) (rel + t)" "min (n + 1) (rel + t) \<le> n + 1"
    "int (fst (slice_range (max 0 rel) (min (n + 1) (rel + t)) (nat n))) = max 0 rel"
    "int (snd (slice_range (max 0 rel) (min (n + 1) (rel + t)) (nat n))) = min n (rel + t)"
  using assms by (auto simp: slice_range_def slice_bound_def Let_def)

text \<open>
  C3 (amended).  For every tile in the planned range (non-negative projected coordinates,
  positive tile sizes, canvas allocated) the computed destination bounds satisfy
  \<open>0 \<le> img_x_l \<le> img_x_r \<le> canvasW + 1\<close> and \<open>0 \<le> img_y_l \<le> img_y_r \<le> canvasH + 1\<close>:
  the right and bottom bounds are cut at \<open>img_w + 1\<close> and \<open>img_h + 1\<close> (lines 236, 238).
  The half-open slice that numpy selects from them is clipped to the canvas: it starts at
  \<open>img_x_l\<close> (\<open>img_y_l\<close>) and ends at \<open>min(canvasW, img_x_r)\<close> (\<open>min(canvasH, img_y_r)\<close>).
\<close>

theorem dest_rect_bounds:
  assumes "g = plan_geometry (px, py) (qx, qy) (tw, th, ch)"
    and "0 \<le> px" "0 \<le> py" "0 \<le> qx" "0 \<le> qy" "0 < tw" "0 < th"
    and "0 \<le> img_h g"
    and "tx \<in> set [tl_tile_x g .. br_tile_x g]" "ty \<in> set [tl_tile_y g .. br_tile_y g]"
    and "p = place_tile g tx ty"
    and "img = [nat (img_h g), nat (img_w g), nat ch]"
  shows "0 \<le> img_x_l p \<and> img_x_l p \<le> img_x_r p \<and> img_x_r p \<le> img_w g + 1 \<and>
         0 \<le> img_y_l p \<and> img_y_l p \<le> img_y_r p \<and> img_y_r p \<le> img_h g + 1 \<and>
         int (col_lo (dest_rect img p)) = img_x_l p \<and>
         int (col_hi (dest_rect img p)) = min (img_w g) (img_x_r p) \<and>
         int (row_lo (dest_rect img p)) = img_y_l p \<and>
         int (row_hi (dest_rect img p)) = min (img_h g) (img_y_r p) \<and>
         col_lo (dest_rect img p) \<le> col_hi (dest_rect img p) \<and>
         int (col_hi (dest_rect img p)) \<le> img_w g \<and>
         row_lo (dest_rect img p) \<le> row_hi (dest_rect img p) \<and>
         int (row_hi (dest_rect img p)) \<le> img_h g"
proof -
  have w: "0 \<le> img_w g" using assms(1) by (simp add: plan_geometry_fields)
  have ts: "tile_size_x g = tw" "tile_size_y g = th"
    using assms(1) by (simp_all add: plan_geometry_fields)
  note xo = planned_x_offsets [OF assms(1) assms(4) assms(6) assms(9), of ty]
  note yo = planned_y_offsets [OF assms(1) assms(5) assms(7) assms(10), of tx]
  have relx: "tx * tw - tl_pixel_x g \<le> img_w g" "1 \<le> tx * tw - tl_pixel_x g + tw"
    using xo ts by (simp_all add: place_tile_fields)
  have rely: "ty * th - tl_pixel_y g \<le> img_h g" "1 \<le> ty * th - tl_pixel_y g + th"
    using yo ts by (simp_all add: place_tile_fields)
  note ax = axis_dest_bounds [OF w assms(6) relx]
  note ay = axis_dest_bounds [OF assms(8) assms(7) rely]
  have px: "img_x_l p = max 0 (tx * tw - tl_pixel_x g)"
    "img_x_r p = min (img_w g + 1) (tx * tw - tl_pixel_x g + tw)"
    "img_y_l p = max 0 (ty * th - tl_pixel_y g)"
    "img_y_r p = min (img_h g + 1) (ty * th - tl_pixel_y g + th)"
    using assms(11) ts by (simp_all add: place_tile_fields)
  have i: "img ! 0 = nat (img_h g)" "img ! 1 = nat (img_w g)" using assms(12) by simp_all
  have c1: "int (col_lo (dest_rect img p)) = img_x_l p"
    unfolding dest_rect_rows px i using ax(4) by simp
  have c2: "int (col_hi (dest_rect img p)) = min (img_w g) (img_x_r p)"
    unfolding dest_rect_rows px i using ax(5) by simp
  have r1: "int (row_lo (dest_rect img p)) = img_y_l p"
    unfolding dest_rect_rows px i using ay(4) by simp
  have r2: "int (row_hi (dest_rect img p)) = min (img_h g) (img_y_r p)"
    unfolding dest_rect_rows px i using ay(5) by simp
  have n: "0 \<le> img_x_l p" "img_x_l p \<le> img_x_r p" "img_x_r p \<le> img_w g + 1"
    "0 \<le> img_y_l p" "img_y_l p \<le> img_y_r p" "img_y_r p \<le> img_h g + 1"
    unfolding px using ax(1,2,3) ay(1,2,3) by simp_all
  have m: "img_x_l p \<le> img_w g" "img_y_l p \<le> img_h g"
    unfolding px using relx(1) rely(1) w assms(8) by simp_all
  have "int (col_lo (dest_rect img p)) \<le> int (col_hi (dest_rect img p))"
    unfolding c1 c2 using n m by simp
  moreover have "int (row_lo (dest_rect img p)) \<le> int (row_hi (dest_rect img p))"
    unfolding r1 r2 using n m by simp
  ultimately have o: "col_lo (dest_rect img p) \<le> col_hi (dest_rect img p)"
    "row_lo (dest_rect img p) \<le> row_hi (dest_rect img p)"
    by simp_all
  show ?thesis using c1 c2 r1 r2 n o by simp
qed

theorem dest_rect_bounds_witness:
  "0 \<le> img_h (plan_geometry (5/2, 1/2) (9/2, 7/4) (256, 256, 3)) \<and>
   4 \<in> set [tl_tile_x (plan_geometry (5/2, 1/2) (9/2, 7/4) (256, 256, 3)) .. br_tile_x (plan_geometry (5/2, 1/2) (9/2, 7/4) (256, 256, 3))] \<and>
   1 \<in> set [tl_tile_y (plan_geometry (5/2, 1/2) (9/2, 7/4) (256, 256, 3)) .. br_tile_y (plan_geometry (5/2, 1/2) (9/2, 7/4) (256, 256, 3))] \<and>
   img_w (plan_geometry (5/2, 1/2) (9/2, 7/4) (256, 256, 3)) = 512 \<and> img_h (plan_geometry (5/2, 1/2) (9/2, 7/4) (256, 256, 3)) = 320 \<and>
   img_x_l (place_tile (plan_geometry (5/2, 1/2) (9/2, 7/4) (256, 256, 3)) 4 1) = 384 \<and> img_x_r (place_tile (plan_geometry (5/2, 1/2) (9/2, 7/4) (256, 256, 3)) 4 1) = 513 \<and>
   img_y_l (place_tile (plan_geometry (5/2, 1/2) (9/2, 7/4) (256, 256, 3)) 4 1) = 128 \<and> img_y_r (place_tile (plan_geometry (5/2, 1/2) (9/2, 7/4) (256, 256, 3)) 4 1) = 321 \<and>
   dest_rect [320, 512, 3] (place_tile (plan_geometry (5/2, 1/2) (9/2, 7/4) (256, 256, 3)) 4 1)
     = \<lparr> row_lo = 128, row_hi = 320, col_lo = 384, col_hi = 512 \<rparr>"
  using dest_rect_bounds
    [where g = "plan_geometry (5/2, 1/2) (9/2, 7/4) (256, 256, 3)" and px = "5/2" and py = "1/2" and qx = "9/2" and qy = "7/4"
       and tw = 256 and th = 256 and ch = 3 and tx = 4 and ty = 1
       and p = "place_tile (plan_geometry (5/2, 1/2) (9/2, 7/4) (256, 256, 3)) 4 1" and img = "[320, 512, 3]"]
  by (simp add: plan_geometry_fields place_tile_fields py_int_def upto.simps dest_rect_def
        slice_range_def slice_bound_def)

text \<open>
  At latitude 0, zoom 0, longitudes 0 and 90 with 256-pixel tiles the canvas is 64 pixels
  wide and the planned tile \<open>(0, 0)\<close> gets \<open>img_x_r = min(65, 128) = 65\<close>.
\<close>

theorem dest_rect_bounds_counterexample:
  "0 \<in> set [tl_tile_x (plan_geometry (lat_lon_to_tile_coords 0 0 1) (lat_lon_to_tile_coords 0 90 1)
                 (256, 256, 3)) ..
             br_tile_x (plan_geometry (lat_lon_to_tile_coords 0 0 1) (lat_lon_to_tile_coords 0 90 1)
                 (256, 256, 3))] \<and>
   0 \<in> set [tl_tile_y (plan_geometry (lat_lon_to_tile_coords 0 0 1) (lat_lon_to_tile_coords 0 90 1)
                 (256, 256, 3)) ..
             br_tile_y (plan_geometry (lat_lon_to_tile_coords 0 0 1) (lat_lon_to_tile_coords 0 90 1)
                 (256, 256, 3))] \<and>
   \<not> img_x_r (place_tile (plan_geometry (lat_lon_to_tile_coords 0 0 1)
                 (lat_lon_to_tile_coords 0 90 1) (256, 256, 3)) 0 0)
      \<le> img_w (plan_geometry (lat_lon_to_tile_coords 0 0 1) (lat_lon_to_tile_coords 0 90 1)
                 (256, 256, 3))"
  by (simp add: lat_lon_to_tile_coords_def plan_geometry_def place_tile_def py_int_def Let_def)

section \<open>The probe\<close>

text \<open>
  C7.  What \<open>get_image_info\<close> does with each outcome of the probe request, and what becomes
  of the run.  There is no exception handler around the request and the decoding: when
  \<open>requests.get\<close> raises, or \<open>cv2.imdecode\<close> raises on the body it is given, the exception
  leaves \<open>get_image_info\<close> and \<open>download_map_region\<close>, and \<open>main\<close> prints it and exits with
  status 1; the fallback \<open>(256, 256, 1)\<close> is returned only when \<open>cv2.imdecode\<close> returns
  \<open>None\<close>.  The status code is never looked at: a response whose body decodes gives the
  decoded width, height and channel count (1 for a two-dimensional array), whatever its
  status.  The claim and the docstring (lines 105-107) promise the fallback for every tile
  that is not found.
\<close>

theorem probe_failure_outcomes:
  assumes "shift_scale z = Inr scale"
    and "tx = py_int (fst (lat_lon_to_tile_coords la1 lo1 (real_of_int scale)))"
    and "ty = py_int (snd (lat_lon_to_tile_coords la1 lo1 (real_of_int scale)))"
  shows "(\<forall>e. get tx ty z = Inl e \<longrightarrow>
            get_image_info get imdecode tx ty z = Inl e \<and>
            main get imdecode imwrite
              (Parsed \<lparr> cli_lat1 = la1, cli_lon1 = lo1, cli_lat2 = la2, cli_lon2 = lo2,
                        cli_zoom = z, cli_file = fname \<rparr>) = (1, [Error_colon e])) \<and>
         (\<forall>r e. get tx ty z = Inr r \<and> imdecode (content r) = Inl e \<longrightarrow>
            get_image_info get imdecode tx ty z = Inl e \<and>
            main get imdecode imwrite
              (Parsed \<lparr> cli_lat1 = la1, cli_lon1 = lo1, cli_lat2 = la2, cli_lon2 = lo2,
                        cli_zoom = z, cli_file = fname \<rparr>) = (1, [Error_colon e])) \<and>
         (\<forall>r. get tx ty z = Inr r \<and> imdecode (content r) = Inr None \<longrightarrow>
            get_image_info get imdecode tx ty z = Inr (256, 256, 1)) \<and>
         (\<forall>r h w. get tx ty z = Inr r \<and> imdecode (content r) = Inr (Some [h, w]) \<longrightarrow>
            get_image_info get imdecode tx ty z = Inr (int w, int h, 1)) \<and>
         (\<forall>r h w c. get tx ty z = Inr r \<and> imdecode (content r) = Inr (Some [h, w, c]) \<longrightarrow>
            get_image_info get imdecode tx ty z = Inr (int w, int h, int c))"
proof -
  have run: "main get imdecode imwrite
              (Parsed \<lparr> cli_lat1 = la1, cli_lon1 = lo1, cli_lat2 = la2, cli_lon2 = lo2,
                        cli_zoom = z, cli_file = fname \<rparr>) = (1, [Error_colon e])"
    if "get_image_info get imdecode tx ty z = Inl e" for e
    using that assms by (simp add: main_def download_map_region_def Let_def)
  have a: "get_image_info get imdecode tx ty z = Inl e" if "get tx ty z = Inl e" for e
    using that by (simp add: get_image_info_def)
  have b: "get_image_info get imdecode tx ty z = Inl e"
    if "get tx ty z = Inr r \<and> imdecode (content r) = Inl e" for r e
    using that by (simp add: get_image_info_def)
  have c: "get_image_info get imdecode tx ty z = Inr (256, 256, 1)"
    if "get tx ty z = Inr r \<and> imdecode (content r) = Inr None" for r
    using that by (simp add: get_image_info_def)
  have d: "get_image_info get imdecode tx ty z = Inr (int w, int h, 1)"
    if "get tx ty z = Inr r \<and> imdecode (content r) = Inr (Some [h, w])" for r h w
    using that by (simp add: get_image_info_def)
  have e: "get_image_info get imdecode tx ty z = Inr (int w, int h, int c)"
    if "get tx ty z = Inr r \<and> imdecode (content r) = Inr (Some [h, w, c])" for r h w c
    using that by (simp add: get_image_info_def)
  show ?thesis using run a b c d e by blast
qed

text \<open>
  A server that answers the probe with status 404 and an empty body, on which
  \<open>cv2.imdecode\<close> raises; a connection that fails; a 404 error page that does not decode;
  and a 404 response that carries a 512 x 512 placeholder image.
\<close>

theorem probe_failure_outcomes_witness:
  "main (\<lambda>x y z. Inr \<lparr> status_code = 404, content = [] \<rparr>)
        (\<lambda>b. if b = [] then Inl (External ''(-215:Assertion failed) !buf.empty()'')
              else Inr None)
        (\<lambda>f a. Inr True)
        (Parsed \<lparr> cli_lat1 = 0, cli_lon1 = 0, cli_lat2 = 0, cli_lon2 = 90,
                  cli_zoom = 0, cli_file = ''map.png'' \<rparr>)
     = (1, [Error_colon (External ''(-215:Assertion failed) !buf.empty()'')]) \<and>
   main (\<lambda>x y z. Inl (External ''Connection refused''))
        (\<lambda>b. Inr None) (\<lambda>f a. Inr True)
        (Parsed \<lparr> cli_lat1 = 0, cli_lon1 = 0, cli_lat2 = 0, cli_lon2 = 90,
                  cli_zoom = 0, cli_file = ''map.png'' \<rparr>)
     = (1, [Error_colon (External ''Connection refused'')]) \<and>
   get_image_info (\<lambda>x y z. Inr \<lparr> status_code = 404, content = ''Not Found'' \<rparr>)
        (\<lambda>b. Inr None) 0 0 0 = Inr (256, 256, 1) \<and>
   get_image_info (\<lambda>x y z. Inr \<lparr> status_code = 404, content = ''placeholder image'' \<rparr>)
        (\<lambda>b. Inr (Some [512, 512, 3])) 0 0 0 = Inr (512, 512, 3)"
proof -
  have s: "shift_scale 0 = Inr 1" by (simp add: shift_scale_def)
  have p: "0 = py_int (fst (lat_lon_to_tile_coords 0 0 (real_of_int 1)))"
    "0 = py_int (snd (lat_lon_to_tile_coords 0 0 (real_of_int 1)))"
    by (simp_all add: lat_lon_to_tile_coords_def Let_def py_int_def)
  note t = probe_failure_outcomes [OF s p, where ?la2.0 = 0 and ?lo2.0 = 90
             and fname = "''map.png''" and imwrite = "\<lambda>f a. Inr True"]
  from t [of "\<lambda>x y z. Inr \<lparr> status_code = 404, content = [] \<rparr>"
            "\<lambda>b. if b = [] then Inl (External ''(-215:Assertion failed) !buf.empty()'')
                 else Inr None"]
       t [of "\<lambda>x y z. Inl (External ''Connection refused'')" "\<lambda>b. Inr None"]
       t [of "\<lambda>x y z. Inr \<lparr> status_code = 404, content = ''Not Found'' \<rparr>" "\<lambda>b. Inr None"]
       t [of "\<lambda>x y z. Inr \<lparr> status_code = 404, content = ''placeholder image'' \<rparr>"
             "\<lambda>b. Inr (Some [512, 512, 3])"]
  show ?thesis by simp
qed

section \<open>A sample run\<close>

text \<open>
  A run on a server that has the tiles of column 0 only: latitude 0, longitudes -90 to 90,
  zoom 1, so that row 1 with the columns 0 and 1 is planned.
\<close>

lemma mixed_run:
  "download_map_region
     (\<lambda>x y z. Inr \<lparr> status_code = (if x = 0 then 200 else 404),
                      content = (if x = 0 then ''tile'' else ''none'') \<rparr>)
     (\<lambda>b. if b = ''tile'' then Inr (Some [256, 256, 3]) else Inr None)
     imwrite 0 (- 90) 0 90 1 fname
   = Inr \<lparr> geom = plan_geometry (1/2, 1) (3/2, 1) (256, 256, 3), canvas = [0, 256, 3],
           thread_errors = [None],
           final = \<lparr> tiles_current = 1, bar_updates = [1],
                     writes = [\<lparr> row_lo = 0, row_hi = 0, col_lo = 0, col_hi = 128 \<rparr>] \<rparr>,
           prints = (case imwrite fname [0, 256, 3] of
                       Inl e \<Rightarrow> [Saving_image fname, Error_newline e]
                     | Inr written \<Rightarrow> [Saving_image fname, Done]) \<rparr>"
  by (simp add: download_map_region_def shift_scale_def lat_lon_to_tile_coords_def Let_def
        get_image_info_def py_int_def plan_geometry_def ProgressBar_def np_zeros_def build_row_def upto.simps
        place_tile_def copy_tile_def slice2_shape_def slice_len_def slice_range_def
        slice_bound_def broadcastable_def dest_rect_def)

section \<open>Progress reports\<close>

text \<open>One pass of the loop body reports progress once if the tile decodes, else not at all.\<close>

lemma build_row_tiles_single:
  "bar_updates (snd (build_row_tiles get imdecode g img z ty [tx] st)) =
     bar_updates st @ (if tile_decodes get imdecode z ty tx then [tiles_current st + 1] else [])"
  by (simp add: tile_decodes_def Let_def split: sum.splits option.splits)

lemma build_row_tiles_single_count:
  "length (bar_updates (snd (build_row_tiles get imdecode g img z ty [tx] st))) =
     length (bar_updates st) + (if tile_decodes get imdecode z ty tx then 1 else 0)"
  by (simp only: build_row_tiles_single) simp

text \<open>
  A step of a task never raises the sum of the reports made and the reports pending, and
  keeps it as long as the task is not ended by an exception.
\<close>

lemma step_task_pending:
  assumes "step_task get imdecode g img z t st = (t', st')"
  shows "length (bar_updates st') + pending_reports get imdecode z t'
           \<le> length (bar_updates st) + pending_reports get imdecode z t"
    and "task_error t' = None \<Longrightarrow> task_error t = None"
    and "task_error t' = None \<Longrightarrow>
           length (bar_updates st') + pending_reports get imdecode z t'
             = length (bar_updates st) + pending_reports get imdecode z t"
proof -
  show a: "length (bar_updates st') + pending_reports get imdecode z t'
           \<le> length (bar_updates st) + pending_reports get imdecode z t"
  proof (cases "task_todo t")
    case Nil
    with assms show ?thesis by (simp add: step_task_def)
  next
    case (Cons tx rest)
    show ?thesis
    proof (cases "task_error t")
      case (Some e)
      with assms Cons show ?thesis by (simp add: step_task_def)
    next
      case None
      obtain r s where b: "build_row_tiles get imdecode g img z (task_row t) [tx] st = (r, s)"
        by force
      from assms Cons None b
      have t': "t' = t\<lparr> task_todo := rest, task_error := r \<rparr>" "st' = s"
        by (simp_all add: step_task_def)
      from build_row_tiles_single_count [of get imdecode g img z "task_row t" tx st] b
      have "length (bar_updates st') =
              length (bar_updates st)
              + (if tile_decodes get imdecode z (task_row t) tx then 1 else 0)"
        by (simp add: t')
      then show ?thesis using Cons None by (simp add: pending_reports_def t')
    qed
  qed
  show "task_error t = None" if "task_error t' = None"
    using assms that by (auto simp: step_task_def split: list.splits option.splits prod.splits)
  show "length (bar_updates st') + pending_reports get imdecode z t'
             = length (bar_updates st) + pending_reports get imdecode z t"
    if n: "task_error t' = None"
  proof (cases "task_todo t")
    case Nil
    with assms show ?thesis by (simp add: step_task_def)
  next
    case (Cons tx rest)
    show ?thesis
    proof (cases "task_error t")
      case (Some e)
      with assms Cons show ?thesis by (simp add: step_task_def)
    next
      case None
      obtain r s where b: "build_row_tiles get imdecode g img z (task_row t) [tx] st = (r, s)"
        by force
      from assms Cons None b
      have t': "t' = t\<lparr> task_todo := rest, task_error := r \<rparr>" "st' = s"
        by (simp_all add: step_task_def)
      from build_row_tiles_single_count [of get imdecode g img z "task_row t" tx st] b
      have "length (bar_updates st') =
              length (bar_updates st)
              + (if tile_decodes get imdecode z (task_row t) tx then 1 else 0)"
        by (simp add: t')
      then show ?thesis using Cons None n by (simp add: pending_reports_def t')
    qed
  qed
qed

lemma sum_list_update_nat:
  fixes xs :: "nat list"
  assumes "i < length xs"
  shows "sum_list (xs[i := v]) + xs ! i = sum_list xs + v"
  using assms
proof (induction xs arbitrary: i)
  case Nil
  then show ?case by simp
next
  case (Cons x xs)
  then show ?case by (cases i) auto
qed

lemma run_schedule_pending:
  assumes "run_schedule get imdecode g img z sched ts st = (ts', st')"
  shows "length (bar_updates st') + sum_list (map (pending_reports get imdecode z) ts')
           \<le> length (bar_updates st) + sum_list (map (pending_reports get imdecode z) ts) \<and>
         ((\<forall>t \<in> set ts'. task_error t = None) \<longrightarrow>
            (\<forall>t \<in> set ts. task_error t = None) \<and>
            length (bar_updates st') + sum_list (map (pending_reports get imdecode z) ts')
              = length (bar_updates st) + sum_list (map (pending_reports get imdecode z) ts))"
  using assms
proof (induction sched arbitrary: ts st)
  case Nil
  then show ?case by simp
next
  case (Cons i sched)
  show ?case
  proof (cases "i < length ts")
    case False
    with Cons.prems have "run_schedule get imdecode g img z sched ts st = (ts', st')" by simp
    from Cons.IH [OF this] show ?thesis .
  next
    case True
    obtain t s where stp: "step_task get imdecode g img z (ts ! i) st = (t, s)" by force
    with Cons.prems True
    have rest: "run_schedule get imdecode g img z sched (ts[i := t]) s = (ts', st')" by simp
    note ih = Cons.IH [OF rest]
    note sp = step_task_pending [OF stp]
    let ?p = "pending_reports get imdecode z"
    have upd: "sum_list (map ?p (ts[i := t])) + ?p (ts ! i) = sum_list (map ?p ts) + ?p t"
      using sum_list_update_nat [of i "map ?p ts" "?p t"] True by (simp add: map_update)
    have le: "length (bar_updates st') + sum_list (map ?p ts')
                \<le> length (bar_updates st) + sum_list (map ?p ts)"
      using ih sp(1) upd by linarith
    have eq: "(\<forall>t \<in> set ts. task_error t = None) \<and>
              length (bar_updates st') + sum_list (map ?p ts')
                = length (bar_updates st) + sum_list (map ?p ts)"
      if n: "\<forall>t \<in> set ts'. task_error t = None"
    proof -
      from ih n have a: "\<forall>u \<in> set (ts[i := t]). task_error u = None"
        and b: "length (bar_updates st') + sum_list (map ?p ts')
                  = length (bar_updates s) + sum_list (map ?p (ts[i := t]))"
        by simp_all
      have "t \<in> set (ts[i := t])" using True by (simp add: set_update_memI)
      with a have tn: "task_error t = None" by simp
      have "task_error u = None" if "u \<in> set ts" for u
      proof -
        from that obtain j where j: "j < length ts" "u = ts ! j" by (auto simp: in_set_conv_nth)
        show ?thesis
        proof (cases "j = i")
          case True
          with j sp(2) [OF tn] show ?thesis by simp
        next
          case False
          with j have "u = (ts[i := t]) ! j" by simp
          moreover have "(ts[i := t]) ! j \<in> set (ts[i := t])" using j by simp
          ultimately show ?thesis using a by simp
        qed
      qed
      moreover have "length (bar_updates st') + sum_list (map ?p ts')
                = length (bar_updates st) + sum_list (map ?p ts)"
        using b sp(3) [OF tn] upd by linarith
      ultimately show ?thesis by simp
    qed
    from le eq show ?thesis by blast
  qed
qed

lemma pending_done: "\<forall>t \<in> set ts. task_done t \<Longrightarrow>
    sum_list (map (pending_reports get imdecode z) ts) = 0"
  by (induction ts) (auto simp: task_done_def pending_reports_def)

lemma pending_start:
  "sum_list (map (pending_reports get imdecode z)
       (map (\<lambda>ty. \<lparr> task_row = ty, task_todo = xs, task_error = None \<rparr>) ys))
   = length (filter (\<lambda>(ty, tx). tile_decodes get imdecode z ty tx) (List.product ys xs))"
  by (induction ys) (simp_all add: pending_reports_def filter_map comp_def)

lemma tiles_total_plan:
  "tiles_total (plan_geometry a b c) =
     (br_tile_x (plan_geometry a b c) - tl_tile_x (plan_geometry a b c) + 1)
     * (br_tile_y (plan_geometry a b c) - tl_tile_y (plan_geometry a b c) + 1)"
  by (cases a; cases b; cases c) (simp add: plan_geometry_fields)

lemma all_decode_iff:
  "length (filter (\<lambda>(ty, tx). P ty tx) (List.product ys xs)) = length ys * length xs
     \<longleftrightarrow> (\<forall>ty \<in> set ys. \<forall>tx \<in> set xs. P ty tx)"
proof
  assume eq: "length (filter (\<lambda>(ty, tx). P ty tx) (List.product ys xs)) = length ys * length xs"
  show "\<forall>ty \<in> set ys. \<forall>tx \<in> set xs. P ty tx"
  proof (intro ballI)
    fix ty tx
    assume m: "ty \<in> set ys" "tx \<in> set xs"
    show "P ty tx"
    proof (rule ccontr)
      assume "\<not> P ty tx"
      then have "length (filter (\<lambda>(ty, tx). P ty tx) (List.product ys xs))
                   < length (List.product ys xs)"
        using m by (intro length_filter_less [of "(ty, tx)"]) simp_all
      with eq show False by simp
    qed
  qed
next
  assume "\<forall>ty \<in> set ys. \<forall>tx \<in> set xs. P ty tx"
  then have "filter (\<lambda>(ty, tx). P ty tx) (List.product ys xs) = List.product ys xs"
    by (intro filter_True) auto
  then show "length (filter (\<lambda>(ty, tx). P ty tx) (List.product ys xs)) = length ys * length xs"
    by simp
qed

text \<open>
  C8 (amended).  A row task reports one unit of progress for a tile exactly when the tile's fetch and decode
  succeed (the update of lines 246-248 sits under the guard of line 227), and none when they
  fail.  Consequently, after all row tasks have completed, in whatever order their tiles
  were interleaved, the number of progress reports is at most the number of planned tiles
  that decode, and equals it when no row task was ended by an exception; it equals the
  precomputed total tile count only if every planned tile decodes, and it does equal it when
  every planned tile decodes, the corners are in order and no row task was ended by an
  exception.
\<close>

theorem progress_reports:
  assumes "g = plan_geometry tl_proj br_proj info"
    and "run_schedule get imdecode g img z sched (start_tasks g)
           \<lparr> tiles_current = 0, bar_updates = [], writes = [] \<rparr> = (ts, st)"
    and "\<forall>t \<in> set ts. task_done t"
  shows "(\<forall>ty tx s.
            length (bar_updates (snd (build_row_tiles get imdecode g img z ty [tx] s))) =
              length (bar_updates s) + (if tile_decodes get imdecode z ty tx then 1 else 0)) \<and>
         length (bar_updates st)
           \<le> length (filter (\<lambda>(ty, tx). tile_decodes get imdecode z ty tx)
                 (List.product [tl_tile_y g .. br_tile_y g] [tl_tile_x g .. br_tile_x g])) \<and>
         ((\<forall>t \<in> set ts. task_error t = None) \<longrightarrow>
            length (bar_updates st)
              = length (filter (\<lambda>(ty, tx). tile_decodes get imdecode z ty tx)
                  (List.product [tl_tile_y g .. br_tile_y g] [tl_tile_x g .. br_tile_x g]))) \<and>
         (int (length (bar_updates st)) = tiles_total g \<longrightarrow>
            (\<forall>ty \<in> set [tl_tile_y g .. br_tile_y g]. \<forall>tx \<in> set [tl_tile_x g .. br_tile_x g].
               tile_decodes get imdecode z ty tx)) \<and>
         ((\<forall>t \<in> set ts. task_error t = None) \<and>
          tl_tile_x g \<le> br_tile_x g \<and> tl_tile_y g \<le> br_tile_y g \<and>
          (\<forall>ty \<in> set [tl_tile_y g .. br_tile_y g]. \<forall>tx \<in> set [tl_tile_x g .. br_tile_x g].
             tile_decodes get imdecode z ty tx) \<longrightarrow>
            int (length (bar_updates st)) = tiles_total g)"
proof -
  let ?rows = "[tl_tile_y g .. br_tile_y g]"
  let ?cols = "[tl_tile_x g .. br_tile_x g]"
  let ?P = "\<lambda>(ty, tx). tile_decodes get imdecode z ty tx"
  define n where "n = length (filter ?P (List.product ?rows ?cols))"
  define dx where "dx = br_tile_x g - tl_tile_x g + 1"
  define dy where "dy = br_tile_y g - tl_tile_y g + 1"
  have len: "length ?cols = nat dx" "length ?rows = nat dy" by (simp_all add: dx_def dy_def)
  have total: "tiles_total g = dx * dy"
    unfolding assms(1) dx_def dy_def by (rule tiles_total_plan)
  have start: "sum_list (map (pending_reports get imdecode z) (start_tasks g)) = n"
    unfolding start_tasks_def n_def by (rule pending_start)
  have fin: "sum_list (map (pending_reports get imdecode z) ts) = 0"
    using assms(3) by (rule pending_done)
  note inv = run_schedule_pending [OF assms(2)]
  have le: "length (bar_updates st) \<le> n" using inv start fin by simp
  have eq: "length (bar_updates st) = n" if "\<forall>t \<in> set ts. task_error t = None"
    using inv that start fin by simp
  have n_le: "n \<le> length ?rows * length ?cols"
    unfolding n_def using length_filter_le [of ?P "List.product ?rows ?cols"] by simp
  have only: "\<forall>ty \<in> set ?rows. \<forall>tx \<in> set ?cols. tile_decodes get imdecode z ty tx"
    if t: "int (length (bar_updates st)) = tiles_total g"
  proof (cases "0 < dx \<and> 0 < dy")
    case True
    then have "int (length ?rows * length ?cols) = dx * dy" using len by (simp add: mult.commute)
    with t total have "length (bar_updates st) = length ?rows * length ?cols" by linarith
    with le n_le have "n = length ?rows * length ?cols" by simp
    then show ?thesis unfolding n_def by (simp only: all_decode_iff)
  next
    case False
    then have "?cols = [] \<or> ?rows = []" by (auto simp: dx_def dy_def)
    then show ?thesis by auto
  qed
  have all: "int (length (bar_updates st)) = tiles_total g"
    if a: "(\<forall>t \<in> set ts. task_error t = None) \<and>
          tl_tile_x g \<le> br_tile_x g \<and> tl_tile_y g \<le> br_tile_y g \<and>
          (\<forall>ty \<in> set ?rows. \<forall>tx \<in> set ?cols. tile_decodes get imdecode z ty tx)"
  proof -
    from a have "\<forall>ty \<in> set ?rows. \<forall>tx \<in> set ?cols. tile_decodes get imdecode z ty tx"
      by blast
    then have "n = length ?rows * length ?cols" unfolding n_def by (simp only: all_decode_iff)
    moreover from a have "0 \<le> dx" "0 \<le> dy" by (simp_all add: dx_def dy_def)
    then have "int (length ?rows * length ?cols) = dx * dy" using len by (simp add: mult.commute)
    ultimately show ?thesis using eq a total by simp
  qed
  show ?thesis
    using build_row_tiles_single_count [of get imdecode g img z] le eq only all
    unfolding n_def by blast
qed

text \<open>
  Two rows of two columns on a server that has the tiles of column 0 only, the two row tasks
  taking turns: two reports are made, the total is 4.
\<close>

theorem progress_reports_witness:
  "run_schedule
     (\<lambda>x y z. Inr \<lparr> status_code = (if x = 0 then 200 else 404),
                      content = (if x = 0 then ''tile'' else ''none'') \<rparr>)
     (\<lambda>b. if b = ''tile'' then Inr (Some [256, 256, 3]) else Inr None)
     (plan_geometry (1/2, 1/2) (3/2, 3/2) (256, 256, 3)) [256, 256, 3] 1 [0, 1, 1, 0]
     (start_tasks (plan_geometry (1/2, 1/2) (3/2, 3/2) (256, 256, 3)))
     \<lparr> tiles_current = 0, bar_updates = [], writes = [] \<rparr>
   = ([\<lparr> task_row = 0, task_todo = [], task_error = None \<rparr>,
       \<lparr> task_row = 1, task_todo = [], task_error = None \<rparr>],
      \<lparr> tiles_current = 2, bar_updates = [1, 2],
        writes = [\<lparr> row_lo = 0, row_hi = 128, col_lo = 0, col_hi = 128 \<rparr>,
                  \<lparr> row_lo = 128, row_hi = 256, col_lo = 0, col_hi = 128 \<rparr>] \<rparr>) \<and>
   task_done \<lparr> task_row = 0, task_todo = [], task_error = None \<rparr> \<and>
   task_done \<lparr> task_row = 1, task_todo = [], task_error = None \<rparr> \<and>
   filter (\<lambda>(ty, tx). tile_decodes
       (\<lambda>x y z. Inr \<lparr> status_code = (if x = 0 then 200 else 404),
                        content = (if x = 0 then ''tile'' else ''none'') \<rparr>)
       (\<lambda>b. if b = ''tile'' then Inr (Some [256, 256, 3]) else Inr None) 1 ty tx)
     (List.product
        [tl_tile_y (plan_geometry (1/2, 1/2) (3/2, 3/2) (256, 256, 3)) ..
         br_tile_y (plan_geometry (1/2, 1/2) (3/2, 3/2) (256, 256, 3))]
        [tl_tile_x (plan_geometry (1/2, 1/2) (3/2, 3/2) (256, 256, 3)) ..
         br_tile_x (plan_geometry (1/2, 1/2) (3/2, 3/2) (256, 256, 3))])
     = [(0, 0), (1, 0)] \<and>
   tiles_total (plan_geometry (1/2, 1/2) (3/2, 3/2) (256, 256, 3)) = 4"
proof -
  have e: "run_schedule
     (\<lambda>x y z. Inr \<lparr> status_code = (if x = 0 then 200 else 404),
                      content = (if x = 0 then ''tile'' else ''none'') \<rparr>)
     (\<lambda>b. if b = ''tile'' then Inr (Some [256, 256, 3]) else Inr None)
     (plan_geometry (1/2, 1/2) (3/2, 3/2) (256, 256, 3)) [256, 256, 3] 1 [0, 1, 1, 0]
     (start_tasks (plan_geometry (1/2, 1/2) (3/2, 3/2) (256, 256, 3)))
     \<lparr> tiles_current = 0, bar_updates = [], writes = [] \<rparr>
   = ([\<lparr> task_row = 0, task_todo = [], task_error = None \<rparr>,
       \<lparr> task_row = 1, task_todo = [], task_error = None \<rparr>],
      \<lparr> tiles_current = 2, bar_updates = [1, 2],
        writes = [\<lparr> row_lo = 0, row_hi = 128, col_lo = 0, col_hi = 128 \<rparr>,
                  \<lparr> row_lo = 128, row_hi = 256, col_lo = 0, col_hi = 128 \<rparr>] \<rparr>)"
    by (simp add: start_tasks_def step_task_def py_int_def plan_geometry_def Let_def upto.simps
          place_tile_def copy_tile_def slice2_shape_def slice_len_def slice_range_def
          slice_bound_def broadcastable_def dest_rect_def)
  have r: "[tl_tile_y (plan_geometry (1/2, 1/2) (3/2, 3/2) (256, 256, 3)) ..
            br_tile_y (plan_geometry (1/2, 1/2) (3/2, 3/2) (256, 256, 3))] = [0, 1]"
    "[tl_tile_x (plan_geometry (1/2, 1/2) (3/2, 3/2) (256, 256, 3)) ..
      br_tile_x (plan_geometry (1/2, 1/2) (3/2, 3/2) (256, 256, 3))] = [0, 1]"
    by (simp_all add: plan_geometry_fields py_int_def upto.simps)
  have f: "filter (\<lambda>(ty, tx). tile_decodes
       (\<lambda>x y z. Inr \<lparr> status_code = (if x = 0 then 200 else 404),
                        content = (if x = 0 then ''tile'' else ''none'') \<rparr>)
       (\<lambda>b. if b = ''tile'' then Inr (Some [256, 256, 3]) else Inr None) 1 ty tx)
     (List.product [0, 1] [0, 1]) = [(0, 0), (1, 0)]"
    by (simp add: tile_decodes_def)
  have t: "tiles_total (plan_geometry (1/2, 1/2) (3/2, 3/2) (256, 256, 3)) = 4"
    by (simp add: plan_geometry_fields py_int_def)
  from progress_reports [OF refl e, THEN conjunct2, THEN conjunct1]
  show ?thesis
    unfolding r f by (simp only: e t task_done_def) simp
qed

text \<open>
  In the sample run two tiles are planned and processed without any exception, the
  precomputed total is 2, and a single progress report is made.
\<close>

theorem progress_reports_counterexample:
  "map_sum id (\<lambda>res. (tiles_total (geom res), thread_errors res, bar_updates (final res)))
     (download_map_region
        (\<lambda>x y z. Inr \<lparr> status_code = (if x = 0 then 200 else 404),
                         content = (if x = 0 then ''tile'' else ''none'') \<rparr>)
        (\<lambda>b. if b = ''tile'' then Inr (Some [256, 256, 3]) else Inr None)
        (\<lambda>f a. Inr True) 0 (- 90) 0 90 1 ''map.png'')
   = Inr (2, [None], [1])"
  by (simp add: mixed_run plan_geometry_fields py_int_def)

text \<open>
  The run of \<open>download_map_region\<close> is one of these schedules: the one that lets every
  thread run to its end in turn.
\<close>

lemma build_row_tiles_Cons:
  "build_row_tiles get imdecode g img z ty (x # xs) st =
     (case build_row_tiles get imdecode g img z ty [x] st of
        (None, s) \<Rightarrow> build_row_tiles get imdecode g img z ty xs s
      | (Some e, s) \<Rightarrow> (Some e, s))"
  by (simp add: Let_def split: sum.splits option.splits)

lemma run_schedule_append:
  "run_schedule get imdecode g img z (s1 @ s2) ts st =
     (case run_schedule get imdecode g img z s1 ts st of
        (ts', st') \<Rightarrow> run_schedule get imdecode g img z s2 ts' st')"
  by (induction s1 arbitrary: ts st) (auto split: prod.splits)

lemma run_schedule_ended:
  "task_error t \<noteq> None \<Longrightarrow>
     run_schedule get imdecode g img z (replicate n (length pre)) (pre @ t # post) st
       = (pre @ t # post, st)"
  by (induction n) (auto simp: step_task_def split: list.splits option.splits)

lemma run_task_to_end:
  "build_row_tiles get imdecode g img z ty xs st = (r, st') \<Longrightarrow>
     \<exists>rest. run_schedule get imdecode g img z (replicate (length xs) (length pre))
               (pre @ \<lparr> task_row = ty, task_todo = xs, task_error = None \<rparr> # post) st
             = (pre @ \<lparr> task_row = ty, task_todo = rest, task_error = r \<rparr> # post, st') \<and>
            (r = None \<longrightarrow> rest = [])"
proof (induction xs arbitrary: st)
  case Nil
  then show ?case by simp
next
  case (Cons x xs)
  obtain r1 s1 where one: "build_row_tiles get imdecode g img z ty [x] st = (r1, s1)" by force
  have stp: "step_task get imdecode g img z
               \<lparr> task_row = ty, task_todo = x # xs, task_error = None \<rparr> st
             = (\<lparr> task_row = ty, task_todo = xs, task_error = r1 \<rparr>, s1)"
    using one by (simp add: step_task_def)
  have head: "run_schedule get imdecode g img z (replicate (length (x # xs)) (length pre))
               (pre @ \<lparr> task_row = ty, task_todo = x # xs, task_error = None \<rparr> # post) st
             = run_schedule get imdecode g img z (replicate (length xs) (length pre))
               (pre @ \<lparr> task_row = ty, task_todo = xs, task_error = r1 \<rparr> # post) s1"
    using stp by simp
  have unfold: "build_row_tiles get imdecode g img z ty (x # xs) st =
      (case (r1, s1) of
         (None, s) \<Rightarrow> build_row_tiles get imdecode g img z ty xs s
       | (Some e, s) \<Rightarrow> (Some e, s))"
    unfolding one [symmetric] by (rule build_row_tiles_Cons)
  show ?case
  proof (cases r1)
    case None
    with Cons.prems unfold have "build_row_tiles get imdecode g img z ty xs s1 = (r, st')"
      by (simp del: build_row_tiles.simps)
    from Cons.IH [OF this] None show ?thesis unfolding head by simp
  next
    case (Some e)
    with Cons.prems unfold have "r = Some e" "st' = s1"
      by (simp_all del: build_row_tiles.simps)
    with Some show ?thesis
      unfolding head by (simp add: run_schedule_ended)
  qed
qed

lemma run_rows_schedule:
  "run_rows get imdecode g img z ys st = (errs, st') \<Longrightarrow>
     \<exists>sched fs.
       run_schedule get imdecode g img z sched
         (pre @ map (\<lambda>ty. \<lparr> task_row = ty, task_todo = [tl_tile_x g .. br_tile_x g],
                             task_error = None \<rparr>) ys) st
       = (pre @ fs, st') \<and>
       map task_error fs = errs \<and> (\<forall>t \<in> set fs. task_done t)"
proof (induction ys arbitrary: pre st errs)
  case Nil
  then show ?case by (intro exI [of _ "[]"]) simp
next
  case (Cons y ys)
  let ?init = "\<lambda>ty. \<lparr> task_row = ty, task_todo = [tl_tile_x g .. br_tile_x g],
                       task_error = None \<rparr>"
  obtain r s1 where b: "build_row get imdecode g img z y st = (r, s1)" by force
  obtain rs s2 where rr: "run_rows get imdecode g img z ys s1 = (rs, s2)" by force
  from Cons.prems b rr have e: "errs = r # rs" "st' = s2" by simp_all
  with rr have rr': "run_rows get imdecode g img z ys s1 = (rs, st')" by simp
  from run_task_to_end [OF b [unfolded build_row_def], of pre "map ?init ys"]
  obtain rest where
    one: "run_schedule get imdecode g img z
            (replicate (length [tl_tile_x g .. br_tile_x g]) (length pre))
            (pre @ ?init y # map ?init ys) st
          = (pre @ \<lparr> task_row = y, task_todo = rest, task_error = r \<rparr> # map ?init ys, s1)"
    and rest: "r = None \<longrightarrow> rest = []"
    by blast
  from Cons.IH [OF rr', of "pre @ [\<lparr> task_row = y, task_todo = rest, task_error = r \<rparr>]"]
  obtain sched fs where
    more: "run_schedule get imdecode g img z sched
             ((pre @ [\<lparr> task_row = y, task_todo = rest, task_error = r \<rparr>]) @ map ?init ys) s1
           = ((pre @ [\<lparr> task_row = y, task_todo = rest, task_error = r \<rparr>]) @ fs, st')"
    and fs: "map task_error fs = rs" "\<forall>t \<in> set fs. task_done t"
    by blast
  have "run_schedule get imdecode g img z
          (replicate (length [tl_tile_x g .. br_tile_x g]) (length pre) @ sched)
          (pre @ map ?init (y # ys)) st
        = (pre @ (\<lparr> task_row = y, task_todo = rest, task_error = r \<rparr> # fs), st')"
    using one more by (simp add: run_schedule_append)
  moreover have "task_done \<lparr> task_row = y, task_todo = rest, task_error = r \<rparr>"
    using rest by (auto simp: task_done_def)
  ultimately show ?case using fs e by (intro exI conjI) (assumption, simp_all)
qed

lemma download_schedule:
  assumes "download_map_region get imdecode imwrite la1 lo1 la2 lo2 z fname = Inr res"
  shows "\<exists>sched ts.
           run_schedule get imdecode (geom res) (canvas res) z sched (start_tasks (geom res))
             \<lparr> tiles_current = 0, bar_updates = [], writes = [] \<rparr> = (ts, final res) \<and>
           map task_error ts = thread_errors res \<and> (\<forall>t \<in> set ts. task_done t)"
proof -
  obtain errs st where
    rr: "run_rows get imdecode (geom res) (canvas res) z
           [tl_tile_y (geom res) .. br_tile_y (geom res)]
           \<lparr> tiles_current = 0, bar_updates = [], writes = [] \<rparr> = (errs, st)"
    by force
  have "thread_errors res = errs \<and> final res = st"
    using assms rr
    by (auto simp: download_map_region_def Let_def split: sum.splits prod.splits)
  with run_rows_schedule [OF rr, of "[]"] show ?thesis
    by (simp add: start_tasks_def)
qed

section \<open>Encoder failure\<close>

text \<open>
  C9.  What the program does when the encoder fails, once the download has reached the save
  step: when \<open>cv2.imwrite\<close> raises, the cause is printed after \<open>Error:\<close> and \<open>main\<close>
  returns exit status 0; when \<open>cv2.imwrite\<close> returns (its result, \<open>False\<close> on a failed
  write, is not looked at), \<open>Done.\<close> is printed and the exit status is 0 as well.  The
  claim asks for a non-zero exit status.
\<close>

theorem encoder_failure_exit_status:
  assumes "download_map_region get imdecode imwrite la1 lo1 la2 lo2 z fname = Inr res"
  shows "(\<forall>e. imwrite fname (canvas res) = Inl e \<longrightarrow>
            main get imdecode imwrite
              (Parsed \<lparr> cli_lat1 = la1, cli_lon1 = lo1, cli_lat2 = la2, cli_lon2 = lo2,
                     cli_zoom = z, cli_file = fname \<rparr>)
            = (0, [Saving_image fname, Error_newline e])) \<and>
         (\<forall>written. imwrite fname (canvas res) = Inr written \<longrightarrow>
            main get imdecode imwrite
              (Parsed \<lparr> cli_lat1 = la1, cli_lon1 = lo1, cli_lat2 = la2, cli_lon2 = lo2,
                     cli_zoom = z, cli_file = fname \<rparr>)
            = (0, [Saving_image fname, Done]))"
proof -
  have "prints res = (case imwrite fname (canvas res) of
                        Inl e \<Rightarrow> [Saving_image fname, Error_newline e]
                      | Inr written \<Rightarrow> [Saving_image fname, Done])"
    using assms
    by (auto simp: download_map_region_def Let_def split: sum.splits prod.splits)
  then show ?thesis using assms by (simp add: main_def)
qed

theorem encoder_failure_exit_status_witness:
  "main
     (\<lambda>x y z. Inr \<lparr> status_code = (if x = 0 then 200 else 404),
                      content = (if x = 0 then ''tile'' else ''none'') \<rparr>)
     (\<lambda>b. if b = ''tile'' then Inr (Some [256, 256, 3]) else Inr None)
     (\<lambda>f a. Inl (External ''could not find a writer for the specified extension''))
     (Parsed \<lparr> cli_lat1 = 0, cli_lon1 = - 90, cli_lat2 = 0, cli_lon2 = 90,
            cli_zoom = 1, cli_file = ''map.xyz'' \<rparr>)
   = (0, [Saving_image ''map.xyz'',
          Error_newline (External ''could not find a writer for the specified extension'')]) \<and>
   main
     (\<lambda>x y z. Inr \<lparr> status_code = (if x = 0 then 200 else 404),
                      content = (if x = 0 then ''tile'' else ''none'') \<rparr>)
     (\<lambda>b. if b = ''tile'' then Inr (Some [256, 256, 3]) else Inr None)
     (\<lambda>f a. Inr False)
     (Parsed \<lparr> cli_lat1 = 0, cli_lon1 = - 90, cli_lat2 = 0, cli_lon2 = 90,
            cli_zoom = 1, cli_file = ''/root/map.png'' \<rparr>)
   = (0, [Saving_image ''/root/map.png'', Done])"
  using encoder_failure_exit_status
          [OF mixed_run [of "\<lambda>f a. Inl (External ''could not find a writer for the specified extension'')"
                            "''map.xyz''"]]
        encoder_failure_exit_status [OF mixed_run [of "\<lambda>f a. Inr False" "''/root/map.png''"]]
  by auto

section \<open>Copying a tile into the canvas\<close>

lemma broadcast_rev_refl: "broadcast_rev xs xs"
  by (induction xs) auto

lemma axis_crop_matches:
  fixes rel t n :: int
  assumes "0 \<le> n" "0 < t" "rel \<le> n" "1 \<le> rel + t"
  shows "slice_len (max 0 (- rel)) (t + min 0 (n - (rel + t))) (nat t)
         = slice_len (max 0 rel) (min (n + 1) (rel + t)) (nat n)"
  using assms
  by (cases "0 \<le> rel"; cases "rel + t \<le> n";
      simp add: slice_len_def slice_range_def slice_bound_def Let_def min_def max_def;
      linarith)

text \<open>
  For a three-dimensional tile of the probed size and channel count, in the planned range of
  a plan with non-negative projected coordinates, the crop and the destination slice have
  the same shape and the copy writes the clipped destination rectangle.
\<close>

lemma copy_tile_planned:
  assumes "g = plan_geometry (px, py) (qx, qy) (tw, th, ch)"
    and "0 \<le> px" "0 \<le> py" "0 \<le> qx" "0 \<le> qy" "0 < tw" "0 < th"
    and "0 \<le> img_h g"
    and "tx \<in> set [tl_tile_x g .. br_tile_x g]" "ty \<in> set [tl_tile_y g .. br_tile_y g]"
    and "img = [nat (img_h g), nat (img_w g), nat ch]"
    and "tile = [nat th, nat tw, nat ch]"
  shows "copy_tile img tile (place_tile g tx ty) = Inr (dest_rect img (place_tile g tx ty))"
proof -
  have w: "0 \<le> img_w g" using assms(1) by (simp add: plan_geometry_fields)
  have ts: "tile_size_x g = tw" "tile_size_y g = th"
    using assms(1) by (simp_all add: plan_geometry_fields)
  note xo = planned_x_offsets [OF assms(1) assms(4) assms(6) assms(9), of ty]
  note yo = planned_y_offsets [OF assms(1) assms(5) assms(7) assms(10), of tx]
  have relx: "tx * tw - tl_pixel_x g \<le> img_w g" "1 \<le> tx * tw - tl_pixel_x g + tw"
    using xo ts by (simp_all add: place_tile_fields)
  have rely: "ty * th - tl_pixel_y g \<le> img_h g" "1 \<le> ty * th - tl_pixel_y g + th"
    using yo ts by (simp_all add: place_tile_fields)
  have sx: "slice_len (cr_x_l (place_tile g tx ty)) (cr_x_r (place_tile g tx ty)) (nat tw)
      = slice_len (img_x_l (place_tile g tx ty)) (img_x_r (place_tile g tx ty)) (nat (img_w g))"
    unfolding place_tile_fields ts by (rule axis_crop_matches [OF w assms(6) relx])
  have sy: "slice_len (cr_y_l (place_tile g tx ty)) (cr_y_r (place_tile g tx ty)) (nat th)
      = slice_len (img_y_l (place_tile g tx ty)) (img_y_r (place_tile g tx ty)) (nat (img_h g))"
    unfolding place_tile_fields ts by (rule axis_crop_matches [OF assms(8) assms(7) rely])
  show ?thesis
    unfolding copy_tile_def slice2_shape_def assms(11,12)
    by (simp add: sx sy broadcastable_def broadcast_rev_refl)
qed

text \<open>
  C10.  The copy at the corners (30, 0) and (0, 90), zoom 0, on a server whose tiles are
  256 x 256 grayscale images, which \<open>cv2.imdecode\<close> returns as two-dimensional arrays:
  the probe reports \<open>(256, 256, 1)\<close>, the tile has the probed size, the canvas is 64 pixels
  wide and has a positive height, the crop and the destination agree in width and height,
  and the assignment of the two-dimensional crop to the three-dimensional destination
  raises \<open>ValueError\<close>; nothing is written.  The claim says that the copy never raises.
\<close>

theorem grayscale_tile_copy_raises:
  "\<exists>res. download_map_region
            (\<lambda>x y z. Inr \<lparr> status_code = 200, content = ''gray tile'' \<rparr>)
            (\<lambda>b. Inr (Some [256, 256])) (\<lambda>f a. Inr True) 30 0 0 90 0 ''map.png'' = Inr res \<and>
         tile_channels (geom res) = 1 \<and> tile_size_x (geom res) = 256 \<and>
         tile_size_y (geom res) = 256 \<and>
         img_w (geom res) = 64 \<and> 0 < img_h (geom res) \<and>
         thread_errors res = [Some ValueError] \<and> writes (final res) = []"
proof -
  define Y :: real where "Y = 1 / 2 - ln 3 / (4 * pi)"
  define h where "h = \<lfloor>Y * 256\<rfloor>"
  have Yb: "1 / 4 \<le> Y" "Y < 7 / 16" unfolding Y_def by (rule proj_lat_30_y_bounds)+
  have tl: "lat_lon_to_tile_coords 30 0 1 = (1 / 2, Y)"
    using proj_lat_30 [of 0] by (simp add: Y_def)
  have br: "lat_lon_to_tile_coords 0 90 1 = (3 / 4, 1 / 2)"
    by (simp add: lat_lon_to_tile_coords_def Let_def)
  have pY: "py_int Y = 0" using Yb by (simp add: py_int_def floor_eq_iff)
  have hb: "64 \<le> h" "h < 112" using Yb unfolding h_def by (simp_all add: le_floor_iff floor_less_iff)
  have pYT: "py_int (Y * 256) = h" using Yb by (simp add: py_int_def h_def)
  define g where "g = plan_geometry (1 / 2, Y) (3 / 4, 1 / 2) (256, 256, 1)"
  have g: "g = \<lparr> tile_size_x = 256, tile_size_y = 256, tile_channels = 1,
                tl_pixel_x = 128, tl_pixel_y = h, br_pixel_x = 192, br_pixel_y = 128,
                tl_tile_x = 0, tl_tile_y = 0, br_tile_x = 0, br_tile_y = 0,
                img_w = 64, img_h = 128 - h, tiles_total = 1 \<rparr>"
    unfolding g_def by (simp add: plan_geometry_def Let_def pY pYT) (simp add: py_int_def)
  have pb: "ProgressBar (tiles_total g) = Inr 1" by (simp add: g ProgressBar_def)
  define img where "img = [nat (128 - h), 64, 1 :: nat]"
  have z: "np_zeros (img_h g) (img_w g) (tile_channels g) = Inr img"
    using hb by (simp add: g np_zeros_def img_def)
  have cp: "copy_tile img [256, 256] (place_tile g 0 0) = Inl ValueError"
    by (simp add: copy_tile_def slice2_shape_def img_def g place_tile_def Let_def
          broadcastable_def slice_len_def slice_range_def slice_bound_def)
  define st0 where "st0 = \<lparr> tiles_current = 0, bar_updates = [], writes = [] \<rparr>"
  have rr: "run_rows (\<lambda>x y z. Inr \<lparr> status_code = 200, content = ''gray tile'' \<rparr>)
              (\<lambda>b. Inr (Some [256, 256])) g img 0 [tl_tile_y g .. br_tile_y g] st0
            = ([Some ValueError], st0\<lparr> tiles_current := 1, bar_updates := [1] \<rparr>)"
    using cp by (simp add: g build_row_def Let_def st0_def)
  have info: "get_image_info (\<lambda>x y z. Inr \<lparr> status_code = 200, content = ''gray tile'' \<rparr>)
                (\<lambda>b. Inr (Some [256, 256])) (py_int (1 / 2)) (py_int Y) 0 = Inr (256, 256, 1)"
    by (simp add: get_image_info_def)
  have "download_map_region
            (\<lambda>x y z. Inr \<lparr> status_code = 200, content = ''gray tile'' \<rparr>)
            (\<lambda>b. Inr (Some [256, 256])) (\<lambda>f a. Inr True) 30 0 0 90 0 ''map.png''
        = Inr \<lparr> geom = g, canvas = img, thread_errors = [Some ValueError],
                final = st0\<lparr> tiles_current := 1, bar_updates := [1] \<rparr>,
                prints = [Saving_image ''map.png'', Done] \<rparr>"
    unfolding download_map_region_def
    by (simp add: shift_scale_def tl br info Let_def g_def [symmetric] z pb
          rr [unfolded st0_def] st0_def)
  then show ?thesis using hb by (simp add: g st0_def)
qed

end
